theory Spec2Isabelle
  imports Complex_Main "HOL-Library.AList" "HOL-Library.Log_Nat"
begin

section \<open>The NanoStat module of MultiQC\<close>

text \<open>
  A shallow embedding of \<^verbatim>\<open>multiqc/modules/nanostat/nanostat.py\<close>: the log parser
  \<^verbatim>\<open>parse_nanostat_log\<close>, the loading loop of \<^verbatim>\<open>__init__\<close>, the column derivation
  \<^verbatim>\<open>nanostat_general_stats_table\<close> and the histogram derivation
  \<^verbatim>\<open>nanostat_alignment_plot\<close>.

  Conventions of the model.
  \<^item> A Python \<^verbatim>\<open>dict\<close> is an association list in insertion order; \<^verbatim>\<open>d[k] = v\<close> is
    \<open>AList.update k v d\<close> (the value is replaced in place, a new key is appended),
    \<^verbatim>\<open>k in d\<close> is \<open>map_of d k \<noteq> None\<close>.
  \<^item> An exception is a value \<open>Inl e\<close> of the result type \<open>py_error + 'a\<close>.
  \<^item> A raised exception that leaves the module state behind is \<open>Inl (e, st)\<close>, with the
    state \<open>st\<close> as it is when the exception is raised.
  \<^item> Text is ASCII. A Python \<^verbatim>\<open>int\<close> is an \<open>int\<close>. A Python \<^verbatim>\<open>float\<close> is a binary64 number:
    a finite one is \<open>FNum r\<close> with its exact value \<open>r\<close> (the two zeros are one value),
    the infinities are \<open>FInf negative\<close>, and \<open>FNaN\<close>. Arithmetic and conversions round
    to the nearest binary64 number, ties to even, as the interpreter does.
  \<^item> \<^verbatim>\<open>log.debug\<close> appends an event to the \<open>debug_log\<close> field of the module state.
\<close>

subsection \<open>Values and errors\<close>

datatype pyfloat = FNum rat | FInf bool | FNaN

datatype pyval = PInt int | PFloat pyfloat

datatype py_error =
    IndexError
  | ValueError
  | TypeError
  | OverflowError
  | KeyError string
  | AssertionError string
  | UserWarning

subsection \<open>Binary64 arithmetic\<close>

text \<open>\<open>2\<close> to an integer power.\<close>

definition pow2 :: "int \<Rightarrow> rat" where
  "pow2 e = (if 0 \<le> e then 2 ^ nat e else 1 / 2 ^ nat (- e))"

text \<open>The nearest integer, a tie going to the even one.\<close>

definition round_half_even :: "rat \<Rightarrow> int" where
  "round_half_even x =
     (let f = \<lfloor>x\<rfloor>; r = x - of_int f
      in if r < 1 / 2 then f else if 1 / 2 < r then f + 1 else if even f then f else f + 1)"

text \<open>For \<open>0 < a\<close>, the integer \<open>k\<close> with \<open>2 ^ k \<le> a < 2 ^ (k + 1)\<close>.\<close>

definition floor_log2 :: "rat \<Rightarrow> int" where
  "floor_log2 a = (if 1 \<le> a then bitlen \<lfloor>a\<rfloor> - 1 else - bitlen (\<lceil>1 / a\<rceil> - 1))"

text \<open>
  Rounding an exact value to binary64: 53 significant bits, the smallest unit
  \<open>2 ^ - 1074\<close> (subnormal numbers), and an infinity when the rounded value reaches
  \<open>2 ^ 1024\<close>.
\<close>

definition round64 :: "rat \<Rightarrow> pyfloat" where
  "round64 x =
     (if x = 0 then FNum 0
      else
        (let a = \<bar>x\<bar>;
             e = max (floor_log2 a - 52) (- 1074);
             v = of_int (round_half_even (a / pow2 e)) * pow2 e
         in if 2 ^ 1024 \<le> v then FInf (x < 0) else FNum (if x < 0 then - v else v)))"

text \<open>\<^verbatim>\<open>x - y\<close> on two floats.\<close>

fun fl_sub :: "pyfloat \<Rightarrow> pyfloat \<Rightarrow> pyfloat" where
  "fl_sub FNaN y = FNaN"
| "fl_sub x FNaN = FNaN"
| "fl_sub (FInf a) (FInf b) = (if a = b then FNaN else FInf a)"
| "fl_sub (FInf a) (FNum y) = FInf a"
| "fl_sub (FNum x) (FInf b) = FInf (\<not> b)"
| "fl_sub (FNum x) (FNum y) = round64 (x - y)"

text \<open>
  The conversion of an operand of a float operation: an \<^verbatim>\<open>int\<close> is rounded, and one too
  large for a float raises OverflowError.
\<close>

fun to_float :: "pyval \<Rightarrow> py_error + pyfloat" where
  "to_float (PFloat x) = Inr x"
| "to_float (PInt i) =
     (case round64 (of_int i) of FInf neg \<Rightarrow> Inl OverflowError | x \<Rightarrow> Inr x)"

text \<open>
  \<^verbatim>\<open>a - b\<close> on Python numbers: exact on two \<^verbatim>\<open>int\<close>s, a float operation as soon as one
  operand is a float.
\<close>

fun py_sub :: "pyval \<Rightarrow> pyval \<Rightarrow> py_error + pyval" where
  "py_sub (PInt a) (PInt b) = Inr (PInt (a - b))"
| "py_sub a b =
     (case to_float a of
        Inl e \<Rightarrow> Inl e
      | Inr x \<Rightarrow> (case to_float b of Inl e \<Rightarrow> Inl e | Inr y \<Rightarrow> Inr (PFloat (fl_sub x y))))"

text \<open>\<^verbatim>\<open>v >= 0\<close>: false on \<^verbatim>\<open>nan\<close>.\<close>

fun py_ge0 :: "pyval \<Rightarrow> bool" where
  "py_ge0 (PInt i) = (0 \<le> i)"
| "py_ge0 (PFloat (FNum r)) = (0 \<le> r)"
| "py_ge0 (PFloat (FInf neg)) = (\<not> neg)"
| "py_ge0 (PFloat FNaN) = False"

text \<open>The number a value denotes, when it is one.\<close>

fun num_of :: "pyval \<Rightarrow> rat option" where
  "num_of (PInt i) = Some (of_int i)"
| "num_of (PFloat (FNum r)) = Some r"
| "num_of (PFloat x) = None"

subsection \<open>String operations of the Python runtime\<close>

text \<open>\<^verbatim>\<open>str.isspace\<close> on ASCII characters.\<close>

definition is_space :: "char \<Rightarrow> bool" where
  "is_space c = (c \<in> set [CHR '' '', CHR 0x09, CHR 0x0A, CHR 0x0B, CHR 0x0C, CHR 0x0D,
                           CHR 0x1C, CHR 0x1D, CHR 0x1E, CHR 0x1F])"

text \<open>\<^verbatim>\<open>s.strip()\<close>\<close>

definition strip :: "string \<Rightarrow> string" where
  "strip s = rev (dropWhile is_space (rev (dropWhile is_space s)))"

text \<open>\<^verbatim>\<open>s.split(c)\<close> for a one-character separator: never the empty list.\<close>

fun split_on :: "char \<Rightarrow> string \<Rightarrow> string list" where
  "split_on c [] = [[]]"
| "split_on c (x # xs) =
     (if x = c then [] # split_on c xs
      else (case split_on c xs of [] \<Rightarrow> [[x]] | p # ps \<Rightarrow> (x # p) # ps))"

text \<open>\<^verbatim>\<open>s.split()\<close>: the maximal runs of non-space characters; \<open>cur\<close> is the run being read.\<close>

fun split_ws_acc :: "string \<Rightarrow> string \<Rightarrow> string list" where
  "split_ws_acc cur [] = (if cur = [] then [] else [cur])"
| "split_ws_acc cur (c # cs) =
     (if is_space c then (if cur = [] then split_ws_acc [] cs else cur # split_ws_acc [] cs)
      else split_ws_acc (cur @ [c]) cs)"

definition split_ws :: "string \<Rightarrow> string list" where
  "split_ws s = split_ws_acc [] s"

text \<open>\<^verbatim>\<open>s.replace(",", "")\<close>\<close>

definition remove_commas :: "string \<Rightarrow> string" where
  "remove_commas s = filter (\<lambda>c. c \<noteq> CHR '','') s"

text \<open>\<^verbatim>\<open>jinja2.escape\<close> (markupsafe): the five HTML-special characters are replaced.\<close>

definition escape_char :: "char \<Rightarrow> string" where
  "escape_char c =
     (if c = CHR ''&'' then ''&amp;''
      else if c = CHR ''<'' then ''&lt;''
      else if c = CHR ''>'' then ''&gt;''
      else if c = CHR 0x27 then ''&#39;''
      else if c = CHR 0x22 then ''&#34;''
      else [c])"

definition escape :: "string \<Rightarrow> string" where
  "escape s = concat (map escape_char s)"

subsection \<open>Number literals: \<^verbatim>\<open>int(s)\<close> and \<^verbatim>\<open>float(s)\<close>\<close>

text \<open>
  The space that \<^verbatim>\<open>int\<close> and \<^verbatim>\<open>float\<close> skip around a literal is that of C's
  \<^verbatim>\<open>isspace\<close>: unlike \<^verbatim>\<open>str.strip\<close>, they do not skip the separators \<^verbatim>\<open>0x1C\<close> to \<^verbatim>\<open>0x1F\<close>.
\<close>

definition is_c_space :: "char \<Rightarrow> bool" where
  "is_c_space c = (c \<in> set [CHR '' '', CHR 0x09, CHR 0x0A, CHR 0x0B, CHR 0x0C, CHR 0x0D])"

definition c_strip :: "string \<Rightarrow> string" where
  "c_strip s = rev (dropWhile is_c_space (rev (dropWhile is_c_space s)))"

definition is_digit :: "char \<Rightarrow> bool" where
  "is_digit c = (48 \<le> (of_char c :: nat) \<and> (of_char c :: nat) \<le> 57)"

definition digit_val :: "char \<Rightarrow> int" where
  "digit_val c = of_char c - 48"

text \<open>
  A digit part: decimal digits, where single underscores may stand between two digits.
  \<open>n\<close> is the value read so far, \<open>prev\<close> says that the last character was a digit.
\<close>

fun digitpart_acc :: "int \<Rightarrow> bool \<Rightarrow> string \<Rightarrow> int option" where
  "digitpart_acc n prev [] = (if prev then Some n else None)"
| "digitpart_acc n prev (c # cs) =
     (if is_digit c then digitpart_acc (10 * n + digit_val c) True cs
      else if c = CHR ''_'' \<and> prev then digitpart_acc n False cs
      else None)"

definition digitpart :: "string \<Rightarrow> int option" where
  "digitpart s = digitpart_acc 0 False s"

text \<open>An optional sign: the factor and the rest.\<close>

fun take_sign :: "string \<Rightarrow> int \<times> string" where
  "take_sign [] = (1, [])"
| "take_sign (c # cs) =
     (if c = CHR ''-'' then (-1, cs) else if c = CHR ''+'' then (1, cs) else (1, c # cs))"

text \<open>
  \<^verbatim>\<open>int(s)\<close>: surrounding space, an optional sign, a digit part. \<open>None\<close> is ValueError.
  (The interpreter's configurable limit on the number of digits is not modelled.)
\<close>

definition py_int :: "string \<Rightarrow> int option" where
  "py_int s =
     (case take_sign (c_strip s) of (sg, ds) \<Rightarrow>
        (case digitpart ds of None \<Rightarrow> None | Some n \<Rightarrow> Some (sg * n)))"

text \<open>
  The exact value of an unsigned decimal literal: digits with an optional fraction (one
  side of the point may be empty), an optional exponent.
\<close>

definition count_digits :: "string \<Rightarrow> nat" where
  "count_digits s = length (filter is_digit s)"

definition mantissa :: "string \<Rightarrow> rat option" where
  "mantissa m =
     (let ip = takeWhile (\<lambda>c. c \<noteq> CHR ''.'') m; r = dropWhile (\<lambda>c. c \<noteq> CHR ''.'') m
      in case r of
           [] \<Rightarrow> map_option of_int (digitpart ip)
         | _ # fp \<Rightarrow>
             (if ip = [] then
                (case digitpart fp of None \<Rightarrow> None
                 | Some b \<Rightarrow> Some (of_int b / 10 ^ count_digits fp))
              else if fp = [] then map_option of_int (digitpart ip)
              else
                (case (digitpart ip, digitpart fp) of
                   (Some a, Some b) \<Rightarrow> Some (of_int a + of_int b / 10 ^ count_digits fp)
                 | _ \<Rightarrow> None)))"

definition is_exp_char :: "char \<Rightarrow> bool" where
  "is_exp_char c = (c = CHR ''e'' \<or> c = CHR ''E'')"

definition exponent :: "string \<Rightarrow> int option" where
  "exponent e =
     (case take_sign e of (sg, ds) \<Rightarrow>
        (case digitpart ds of None \<Rightarrow> None | Some n \<Rightarrow> Some (sg * n)))"

definition pow10 :: "int \<Rightarrow> rat" where
  "pow10 e = (if 0 \<le> e then 10 ^ nat e else 1 / 10 ^ nat (- e))"

definition decimal :: "string \<Rightarrow> rat option" where
  "decimal body =
     (let m = takeWhile (\<lambda>c. \<not> is_exp_char c) body;
          r = dropWhile (\<lambda>c. \<not> is_exp_char c) body
      in case mantissa m of
           None \<Rightarrow> None
         | Some v \<Rightarrow>
             (case r of
                [] \<Rightarrow> Some v
              | _ # e \<Rightarrow> (case exponent e of None \<Rightarrow> None | Some k \<Rightarrow> Some (v * pow10 k))))"

text \<open>A word read without regard to case; \<open>lit\<close> is in lower case.\<close>

definition ci_eq :: "char \<Rightarrow> char \<Rightarrow> bool" where
  "ci_eq c l = (c = l \<or> (of_char c :: nat) + 32 = of_char l)"

definition ci_match :: "string \<Rightarrow> string \<Rightarrow> bool" where
  "ci_match s lit = list_all2 ci_eq s lit"

text \<open>
  \<^verbatim>\<open>float(s)\<close>: surrounding space, an optional sign, then \<^verbatim>\<open>inf\<close>, \<^verbatim>\<open>infinity\<close> or \<^verbatim>\<open>nan\<close> in
  any case, or a decimal literal, whose value is rounded to binary64 (a large one
  becomes an infinity). \<open>None\<close> is ValueError.
\<close>

definition py_float :: "string \<Rightarrow> pyfloat option" where
  "py_float s =
     (case take_sign (c_strip s) of (sg, body) \<Rightarrow>
        if ci_match body ''inf'' \<or> ci_match body ''infinity'' then Some (FInf (sg < 0))
        else if ci_match body ''nan'' then Some FNaN
        else map_option (\<lambda>v. round64 (of_int sg * v)) (decimal body))"

subsection \<open>The module's constants\<close>

definition KEYS_NUM :: "string list" where
  "KEYS_NUM =
     [''Active channels'', ''Number of reads'', ''Total bases'', ''Total bases aligned'',
      ''Read length N50'', ''Mean read length'', ''Median read length'',
      ''Median read quality'', ''Mean read quality'', ''Average percent identity'',
      ''Median percent identity'']"

definition KEYS_READ_Q :: "string list" where
  "KEYS_READ_Q = [''&gt;Q5'', ''&gt;Q7'', ''&gt;Q10'', ''&gt;Q12'', ''&gt;Q15'']"

definition stat_types :: "string list" where
  "stat_types = [''aligned'', ''seq summary'', ''unrecognized'']"

text \<open>\<^verbatim>\<open>_key_fmt.format(k, stat_type)\<close> with \<^verbatim>\<open>_key_fmt = "{} ({})"\<close>\<close>

definition key_fmt :: "string \<Rightarrow> string \<Rightarrow> string" where
  "key_fmt k stat_type = k @ '' ('' @ stat_type @ '')''"

subsection \<open>Dictionaries\<close>

type_synonym 'v dict = "(string \<times> 'v) list"

definition keys :: "'v dict \<Rightarrow> string list" where
  "keys d = map fst d"

text \<open>\<^verbatim>\<open>d.update(e)\<close>\<close>

definition dict_update :: "'v dict \<Rightarrow> 'v dict \<Rightarrow> 'v dict" where
  "dict_update d e = fold (\<lambda>(k, v). AList.update k v) e d"

subsection \<open>The record parser and the aggregator: \<^verbatim>\<open>parse_nanostat_log\<close>\<close>

text \<open>A log file as \<^verbatim>\<open>find_log_files\<close> hands it over: \<^verbatim>\<open>f["f"]\<close>, \<^verbatim>\<open>f["fn"]\<close>, \<^verbatim>\<open>f["s_name"]\<close>.\<close>

record logfile =
  f_lines :: "string list"
  fn :: string
  s_name :: string

datatype log_event =
    NotRecognised string
  | DuplicateSample string
  | FoundReports nat

record module_state =
  nanostat_data :: "pyval dict dict"
  debug_log :: "log_event list"
  data_sources :: "logfile list"

text \<open>
  The body of the loop over the lines (source lines 87 to 100). \<^verbatim>\<open>parts[1]\<close> on a line
  without a colon and \<^verbatim>\<open>split()[0]\<close> on blank text raise IndexError, a malformed number
  raises ValueError.
\<close>

definition parse_line :: "pyval dict \<Rightarrow> string \<Rightarrow> py_error + pyval dict" where
  "parse_line nano_stats line =
     (case split_on CHR '':'' (strip (escape line)) of
        [] \<Rightarrow> Inr nano_stats
      | key # rest \<Rightarrow>
          if key \<in> set KEYS_NUM then
            (case rest of
               [] \<Rightarrow> Inl IndexError
             | p # _ \<Rightarrow>
                 (case py_float (remove_commas p) of
                    None \<Rightarrow> Inl ValueError
                  | Some val \<Rightarrow> Inr (AList.update key (PFloat val) nano_stats)))
          else if key \<in> set KEYS_READ_Q then
            (case rest of
               [] \<Rightarrow> Inl IndexError
             | p # _ \<Rightarrow>
                 (case split_ws (strip p) of
                    [] \<Rightarrow> Inl IndexError
                  | tok # _ \<Rightarrow>
                      (case py_int tok of
                         None \<Rightarrow> Inl ValueError
                       | Some val \<Rightarrow> Inr (AList.update key (PInt val) nano_stats))))
          else Inr nano_stats)"

fun parse_lines :: "pyval dict \<Rightarrow> string list \<Rightarrow> py_error + pyval dict" where
  "parse_lines nano_stats [] = Inr nano_stats"
| "parse_lines nano_stats (line # rest) =
     (case parse_line nano_stats line of
        Inl e \<Rightarrow> Inl e
      | Inr nano_stats' \<Rightarrow> parse_lines nano_stats' rest)"

text \<open>The variant of a stream (source lines 102 to 108); \<open>None\<close> is the early return.\<close>

definition stat_type_of :: "pyval dict \<Rightarrow> string option" where
  "stat_type_of nano_stats =
     (if map_of nano_stats ''Total bases aligned'' \<noteq> None then Some ''aligned''
      else if map_of nano_stats ''Active channels'' \<noteq> None then Some ''seq summary''
      else None)"

text \<open>The dict comprehension of source line 110.\<close>

definition out_dict :: "pyval dict \<Rightarrow> string \<Rightarrow> pyval dict" where
  "out_dict nano_stats stat_type =
     fold (\<lambda>(k, v). AList.update (key_fmt k stat_type) v) nano_stats []"

text \<open>Source lines 112 to 120: the conflict diagnostic, then \<^verbatim>\<open>setdefault(...).update(out_d)\<close>.\<close>

definition merge_record :: "module_state \<Rightarrow> logfile \<Rightarrow> pyval dict \<Rightarrow> module_state" where
  "merge_record st f out_d =
     (let st1 =
            (case map_of (nanostat_data st) (s_name f) of
               None \<Rightarrow> st
             | Some d \<Rightarrow>
                 if \<not> (set (keys d) \<inter> set (keys out_d) = {})
                 then st\<lparr>debug_log := debug_log st @ [DuplicateSample (s_name f)]\<rparr>
                 else st);
          entry = (case map_of (nanostat_data st1) (s_name f) of None \<Rightarrow> [] | Some d \<Rightarrow> d);
          st2 = st1\<lparr>nanostat_data :=
                      AList.update (s_name f) (dict_update entry out_d) (nanostat_data st1)\<rparr>
      in st2\<lparr>data_sources := data_sources st2 @ [f]\<rparr>)"

definition parse_nanostat_log ::
  "module_state \<Rightarrow> logfile \<Rightarrow> py_error \<times> module_state + module_state" where
  "parse_nanostat_log st f =
     (case parse_lines [] (f_lines f) of
        Inl e \<Rightarrow> Inl (e, st)
      | Inr nano_stats \<Rightarrow>
          (case stat_type_of nano_stats of
             None \<Rightarrow> Inr (st\<lparr>debug_log := debug_log st @ [NotRecognised (fn f)]\<rparr>)
           | Some stat_type \<Rightarrow> Inr (merge_record st f (out_dict nano_stats stat_type))))"

text \<open>
  The loading loop of \<^verbatim>\<open>__init__\<close> (source lines 56 to 58): nothing catches an exception,
  which leaves the store as the streams before it have made it.
\<close>

fun load_logs ::
  "module_state \<Rightarrow> logfile list \<Rightarrow> py_error \<times> module_state + module_state" where
  "load_logs st [] = Inr st"
| "load_logs st (f # fs) =
     (case parse_nanostat_log st f of
        Inl err \<Rightarrow> Inl err
      | Inr st' \<Rightarrow> load_logs st' fs)"

definition initial_state :: module_state where
  "initial_state = \<lparr>nanostat_data = [], debug_log = [], data_sources = []\<rparr>"

subsection \<open>The column derivation: \<^verbatim>\<open>nanostat_general_stats_table\<close>\<close>

text \<open>The values of \<^verbatim>\<open>multiqc.config\<close> that the column templates read.\<close>

record mqc_config =
  base_count_prefix :: string
  base_count_desc :: string
  base_count_multiplier :: rat
  long_read_count_prefix :: string
  long_read_count_desc :: string
  long_read_count_multiplier :: rat

text \<open>The two \<^verbatim>\<open>modify\<close> lambdas of the templates.\<close>

datatype modifier = TimesBaseCountMultiplier | TimesLongReadCountMultiplier

text \<open>A column header: a dict with these optional entries.\<close>

record header =
  h_title :: "string option"
  h_description :: "string option"
  h_min :: "int option"
  h_max :: "int option"
  h_suffix :: "string option"
  h_scale :: "string option"
  h_format :: "string option"
  h_modify :: "modifier option"
  h_shared_key :: "string option"
  h_hidden :: "bool option"
  h_placement :: "rat option"

definition empty_header :: header where
  "empty_header =
     \<lparr>h_title = None, h_description = None, h_min = None, h_max = None, h_suffix = None,
      h_scale = None, h_format = None, h_modify = None, h_shared_key = None,
      h_hidden = None, h_placement = None\<rparr>"

definition headers_base :: "mqc_config \<Rightarrow> header dict" where
  "headers_base cfg =
     [(''Average percent identity'',
       empty_header\<lparr>h_title := Some ''Mean Identity'',
                    h_description := Some ''Average percent identity'',
                    h_max := Some 100, h_suffix := Some ''%'', h_scale := Some ''YlGn'',
                    h_hidden := Some True\<rparr>),
      (''Active channels'',
       empty_header\<lparr>h_title := Some ''Active channels'',
                    h_description := Some ''Active channels'', h_scale := Some ''YlGn''\<rparr>),
      (''Mean read length'',
       empty_header\<lparr>h_title := Some (''Mean length ('' @ base_count_prefix cfg @ '')''),
                    h_description := Some (''Mean read length ('' @ base_count_desc cfg @ '')''),
                    h_suffix := Some ''bp'', h_scale := Some ''YlGn'',
                    h_modify := Some TimesBaseCountMultiplier,
                    h_shared_key := Some ''base_count'', h_hidden := Some True\<rparr>),
      (''Mean read quality'',
       empty_header\<lparr>h_title := Some ''Mean Qual'',
                    h_description := Some ''Mean read quality (Phred scale)'',
                    h_scale := Some ''YlGn'', h_shared_key := Some ''phred_score'',
                    h_hidden := Some True\<rparr>),
      (''Median percent identity'',
       empty_header\<lparr>h_title := Some ''Median Identity'',
                    h_description := Some ''Median percent identity'',
                    h_min := Some 0, h_max := Some 100, h_suffix := Some ''%'',
                    h_scale := Some ''YlGn''\<rparr>),
      (''Median read length'',
       empty_header\<lparr>h_title := Some (''Median length ('' @ base_count_prefix cfg @ '')''),
                    h_description := Some (''Median read length ('' @ base_count_desc cfg @ '')''),
                    h_suffix := Some ''bp'', h_modify := Some TimesBaseCountMultiplier,
                    h_shared_key := Some ''base_count'', h_scale := Some ''YlGn'',
                    h_hidden := Some True\<rparr>),
      (''Median read quality'',
       empty_header\<lparr>h_title := Some ''Median Qual'',
                    h_description := Some ''Median read quality (Phred scale)'',
                    h_shared_key := Some ''phred_score'', h_scale := Some ''YlGn''\<rparr>),
      (''Number of reads'',
       empty_header\<lparr>h_title := Some (''# Reads ('' @ long_read_count_prefix cfg @ '')''),
                    h_description := Some (''Number of reads ('' @ long_read_count_desc cfg @ '')''),
                    h_modify := Some TimesLongReadCountMultiplier,
                    h_shared_key := Some ''long_read_count'', h_scale := Some ''YlGn''\<rparr>),
      (''Read length N50'',
       empty_header\<lparr>h_title := Some ''Read N50'', h_description := Some ''Read length N50'',
                    h_format := Some ''{:,g}'', h_suffix := Some ''bp'',
                    h_scale := Some ''YlGn''\<rparr>),
      (''Total bases'',
       empty_header\<lparr>h_title := Some (''Total Bases ('' @ base_count_prefix cfg @ '')''),
                    h_description := Some (''Total bases ('' @ base_count_desc cfg @ '')''),
                    h_modify := Some TimesBaseCountMultiplier,
                    h_shared_key := Some ''base_count'', h_scale := Some ''YlGn''\<rparr>),
      (''Total bases aligned'',
       empty_header\<lparr>h_title := Some (''Aligned Bases ('' @ base_count_prefix cfg @ '')''),
                    h_description := Some (''Total bases aligned ('' @ base_count_desc cfg @ '')''),
                    h_modify := Some TimesBaseCountMultiplier,
                    h_shared_key := Some ''base_count'', h_scale := Some ''YlGn''\<rparr>)]"

text \<open>\<^verbatim>\<open>header_keys\<close>: the keys of all samples (source lines 209 to 211).\<close>

definition header_keys :: "pyval dict dict \<Rightarrow> string list" where
  "header_keys data = concat (map (\<lambda>(s, d). keys d) data)"

text \<open>\<^verbatim>\<open>s.startswith(p)\<close>\<close>

definition startswith :: "string \<Rightarrow> string \<Rightarrow> bool" where
  "startswith s p = (take (length p) s = p)"

text \<open>The body of the inner loop (source lines 220 to 230).\<close>

definition add_column ::
  "mqc_config \<Rightarrow> string list \<Rightarrow> nat \<Rightarrow> string \<Rightarrow> header dict \<Rightarrow> nat \<times> string \<Rightarrow> header dict" where
  "add_column cfg hkeys placement_idx k headers it =
     (case it of (stat_type_idx, stat_type) \<Rightarrow>
        (let first_type_key = key_fmt k (hd stat_types);
             key = key_fmt k stat_type
         in if key \<in> set hkeys then
              (let h0 = (case map_of (headers_base cfg) k of None \<Rightarrow> empty_header | Some h \<Rightarrow> h);
                   h1 = h0\<lparr>h_placement := Some (1000 + of_nat placement_idx)\<rparr>;
                   h2 = (case h_title h1 of
                           None \<Rightarrow> h1
                         | Some t \<Rightarrow> h1\<lparr>h_title := Some (t @ '' ('' @ stat_type @ '')'')\<rparr>);
                   headers1 = AList.update key h2 headers;
                   visible0 = (stat_type_idx = 0 \<or> map_of headers1 first_type_key = None);
                   visible = (visible0 \<and> \<not> startswith key ''&gt;'');
                   was_hidden = (case h_hidden h2 of None \<Rightarrow> False | Some b \<Rightarrow> b)
               in AList.update key (h2\<lparr>h_hidden := Some (was_hidden \<or> visible = False)\<rparr>) headers1)
            else headers))"

definition nanostat_general_stats_table :: "mqc_config \<Rightarrow> pyval dict dict \<Rightarrow> header dict" where
  "nanostat_general_stats_table cfg data =
     fold (\<lambda>(placement_idx, k) headers.
             fold (\<lambda>it hs. add_column cfg (header_keys data) placement_idx k hs it)
                  (enumerate 0 stat_types) headers)
          (enumerate 0 (KEYS_NUM @ KEYS_READ_Q)) []"

subsection \<open>The histogram derivation: \<^verbatim>\<open>nanostat_alignment_plot\<close>\<close>

text \<open>\<^verbatim>\<open>_get_total_reads\<close>: the loop over the variants, then \<^verbatim>\<open>return None, None\<close>.\<close>

fun get_total_reads_loop :: "pyval dict \<Rightarrow> string list \<Rightarrow> pyval option \<times> string option" where
  "get_total_reads_loop data_dict [] = (None, None)"
| "get_total_reads_loop data_dict (stat_type # rest) =
     (let total_key = key_fmt ''Number of reads'' stat_type
      in case map_of data_dict total_key of
           Some v \<Rightarrow> (Some v, Some stat_type)
         | None \<Rightarrow> get_total_reads_loop data_dict rest)"

definition get_total_reads :: "pyval dict \<Rightarrow> pyval option \<times> string option" where
  "get_total_reads data_dict = get_total_reads_loop data_dict stat_types"

definition range_names :: "(string \<times> string) list" where
  "range_names =
     [(''&gt;Q5'', ''&lt;Q5''), (''&gt;Q7'', ''Q5-7''), (''&gt;Q10'', ''Q7-10''),
      (''&gt;Q12'', ''Q10-12''), (''&gt;Q15'', ''Q12-15''), (''rest'', ''&gt;Q15'')]"

text \<open>How \<^verbatim>\<open>format\<close> prints a variant that may be \<^verbatim>\<open>None\<close>.\<close>

definition str_of :: "string option \<Rightarrow> string" where
  "str_of t = (case t of None \<Rightarrow> ''None'' | Some s \<Rightarrow> s)"

text \<open>
  The loop over \<^verbatim>\<open>_range_names\<close> for one sample (source lines 261 to 274): a missing key
  raises KeyError, \<^verbatim>\<open>None - n\<close> raises TypeError, an \<^verbatim>\<open>int\<close> too large for a float raises
  OverflowError, a negative bucket fails the assertion.
\<close>

fun bar_loop ::
  "string \<Rightarrow> pyval dict \<Rightarrow> string option \<Rightarrow> pyval option \<Rightarrow> pyval dict \<Rightarrow>
   (string \<times> string) list \<Rightarrow> py_error + pyval dict" where
  "bar_loop sn data_dict stat_type prev_reads row [] = Inr row"
| "bar_loop sn data_dict stat_type prev_reads row ((k, range_name) # rest) =
     (if k \<noteq> ''rest'' then
        (let data_key = key_fmt k (str_of stat_type)
         in case map_of data_dict data_key of
              None \<Rightarrow> Inl (KeyError data_key)
            | Some reads_gt \<Rightarrow>
                (case prev_reads of
                   None \<Rightarrow> Inl TypeError
                 | Some p \<Rightarrow>
                     (case py_sub p reads_gt of
                        Inl e \<Rightarrow> Inl e
                      | Inr v \<Rightarrow>
                          if py_ge0 v
                          then bar_loop sn data_dict stat_type (Some reads_gt)
                                 (AList.update range_name v row) rest
                          else Inl (AssertionError
                                 (''Error on '' @ sn @ '' '' @ range_name @ '' '' @ data_key @
                                  '' . Negative number of reads'')))))
      else
        (let data_key = key_fmt ''&gt;Q15'' (str_of stat_type)
         in case map_of data_dict data_key of
              None \<Rightarrow> Inl (KeyError data_key)
            | Some v \<Rightarrow>
                bar_loop sn data_dict stat_type prev_reads (AList.update range_name v row) rest))"

text \<open>The buckets of one sample: the body of the loop over the samples.\<close>

definition sample_bars :: "string \<Rightarrow> pyval dict \<Rightarrow> py_error + pyval dict" where
  "sample_bars sn data_dict =
     (case get_total_reads data_dict of (reads_total, stat_type) \<Rightarrow>
        bar_loop sn data_dict stat_type reads_total [] range_names)"

fun plot_loop ::
  "pyval dict dict \<Rightarrow> string option \<Rightarrow> pyval dict dict \<Rightarrow>
   py_error + (pyval dict dict \<times> string option)" where
  "plot_loop bar_data stat_type [] = Inr (bar_data, stat_type)"
| "plot_loop bar_data stat_type ((sn, data_dict) # rest) =
     (case sample_bars sn data_dict of
        Inl e \<Rightarrow> Inl e
      | Inr row \<Rightarrow> plot_loop (AList.update sn row bar_data) (snd (get_total_reads data_dict)) rest)"

text \<open>What is handed to \<^verbatim>\<open>bargraph.plot\<close>: the data, the categories and the title.\<close>

record bar_plot =
  p_data :: "pyval dict dict"
  p_keys :: "string dict"
  p_title :: string

definition nanostat_alignment_plot :: "pyval dict dict \<Rightarrow> py_error + bar_plot" where
  "nanostat_alignment_plot data =
     (case plot_loop [] (Some ''unrecognized'') data of
        Inl e \<Rightarrow> Inl e
      | Inr (bar_data, stat_type) \<Rightarrow>
          Inr \<lparr>p_data = bar_data,
               p_keys = map (\<lambda>(k, range_name). (range_name, ''Reads '' @ range_name)) range_names,
               p_title = ''NanoStat: Reads by quality ('' @ str_of stat_type @ '')''\<rparr>)"

subsection \<open>The constructor: \<^verbatim>\<open>__init__\<close>\<close>

text \<open>
  Modelled from the spec: \<^verbatim>\<open>ignore_samples\<close> of the base module, which is not part of
  this file. The spec's finalize step "removes any sample identities present on a
  caller-supplied ignore-list".
\<close>

definition ignore_samples :: "string list \<Rightarrow> pyval dict dict \<Rightarrow> pyval dict dict" where
  "ignore_samples ignored data = filter (\<lambda>(s, d). s \<notin> set ignored) data"

record module_result =
  r_state :: module_state
  r_headers :: "header dict"
  r_plot :: bar_plot

definition init :: "mqc_config \<Rightarrow> string list \<Rightarrow> logfile list \<Rightarrow> py_error + module_result" where
  "init cfg ignored files =
     (case load_logs initial_state files of
        Inl (e, st) \<Rightarrow> Inl e
      | Inr st \<Rightarrow>
          (let st1 = st\<lparr>nanostat_data := ignore_samples ignored (nanostat_data st)\<rparr>
           in if length (nanostat_data st1) = 0 then Inl UserWarning
              else
                (let st2 = st1\<lparr>debug_log :=
                                 debug_log st1 @ [FoundReports (length (nanostat_data st1))]\<rparr>;
                     headers = nanostat_general_stats_table cfg (nanostat_data st2)
                 in case nanostat_alignment_plot (nanostat_data st2) of
                      Inl e \<Rightarrow> Inl e
                    | Inr plot \<Rightarrow> Inr \<lparr>r_state = st2, r_headers = headers, r_plot = plot\<rparr>)))"

subsection \<open>Predicates of the properties\<close>

text \<open>
  The sample \<open>sn\<close> of the store holds every field of the parsed record \<open>ns\<close> under the
  composite key of the variant \<open>stat_type\<close>.
\<close>

definition stored_under :: "module_state \<Rightarrow> string \<Rightarrow> string \<Rightarrow> pyval dict \<Rightarrow> bool" where
  "stored_under st sn stat_type ns =
     (case map_of (nanostat_data st) sn of
        None \<Rightarrow> False
      | Some d \<Rightarrow> (\<forall>(k, v) \<in> set ns. map_of d (key_fmt k stat_type) = Some v))"

text \<open>
  A composite key \<^verbatim>\<open>name (variant)\<close> whose name is of one of the two vocabularies and
  whose variant is \<^verbatim>\<open>aligned\<close> or \<^verbatim>\<open>seq summary\<close>; a store all of whose keys are such.
\<close>

definition composite_key :: "string \<Rightarrow> bool" where
  "composite_key key =
     (\<exists>k \<in> set (KEYS_NUM @ KEYS_READ_Q). \<exists>t \<in> set [''aligned'', ''seq summary''].
        key = key_fmt k t)"

definition store_keys_composite :: "pyval dict dict \<Rightarrow> bool" where
  "store_keys_composite data =
     (\<forall>(s, d) \<in> set data. \<forall>key \<in> set (keys d). composite_key key)"

text \<open>The exact sum of the buckets of a row, when all of them are numbers.\<close>

definition bucket_sum :: "pyval dict \<Rightarrow> rat option" where
  "bucket_sum row =
     fold (\<lambda>(k, v) acc. case (acc, num_of v) of (Some s, Some x) \<Rightarrow> Some (s + x) | _ \<Rightarrow> None)
       row (Some 0)"

section \<open>Properties\<close>

subsection \<open>Evaluation and dictionaries\<close>

text \<open>The definitions that evaluate the parsing of a line.\<close>

lemmas eval_defs = parse_line_def escape_def escape_char_def strip_def is_space_def
  c_strip_def is_c_space_def KEYS_NUM_def KEYS_READ_Q_def py_float_def remove_commas_def
  decimal_def mantissa_def digitpart_def is_digit_def digit_val_def is_exp_char_def
  split_ws_def py_int_def exponent_def pow10_def count_digits_def ci_match_def ci_eq_def

lemma map_of_dict_update:
  "map_of (dict_update d e) k = (case map_of (rev e) k of Some v \<Rightarrow> Some v | None \<Rightarrow> map_of d k)"
proof (induction e arbitrary: d)
  case Nil
  then show ?case by (simp add: dict_update_def)
next
  case (Cons x e)
  obtain a b where x: "x = (a, b)" by (cases x)
  have "dict_update d (x # e) = dict_update (AList.update a b d) e"
    by (simp add: dict_update_def x)
  then show ?case
    using Cons.IH[of "AList.update a b d"]
    by (auto simp: x AList.update_conv' map_add_def split: option.splits)
qed

lemma keys_update: "set (keys (AList.update k v d)) = insert k (set (keys d))"
  using AList.dom_update[of k v d] by (simp add: keys_def)

lemma keys_dict_update: "set (keys (dict_update d e)) = set (keys d) \<union> set (keys e)"
proof (induction e arbitrary: d)
  case Nil
  then show ?case by (simp add: dict_update_def keys_def)
next
  case (Cons x e)
  obtain a b where x: "x = (a, b)" by (cases x)
  have "dict_update d (x # e) = dict_update (AList.update a b d) e"
    by (simp add: dict_update_def x)
  moreover have "set (keys (AList.update a b d)) = insert a (set (keys d))"
    using AList.dom_update[of a b d] by (simp add: keys_def)
  ultimately show ?case using Cons.IH[of "AList.update a b d"] by (auto simp: x keys_def)
qed

lemma distinct_dict_update:
  "distinct (map fst d) \<Longrightarrow> distinct (map fst (dict_update d e))"
proof (induction e arbitrary: d)
  case Nil
  then show ?case by (simp add: dict_update_def)
next
  case (Cons x e)
  obtain a b where x: "x = (a, b)" by (cases x)
  have "dict_update d (x # e) = dict_update (AList.update a b d) e"
    by (simp add: dict_update_def x)
  then show ?case using Cons.IH[of "AList.update a b d"] Cons.prems
    by (simp add: AList.distinct_update)
qed

lemma out_dict_as_update:
  "out_dict ns t = dict_update [] (map (\<lambda>(k, v). (key_fmt k t, v)) ns)"
proof -
  have "fold (\<lambda>(k, v). AList.update (key_fmt k t) v) ns d =
        fold (\<lambda>(k, v). AList.update k v) (map (\<lambda>(k, v). (key_fmt k t, v)) ns) d" for d
    by (induction ns arbitrary: d) (auto)
  then show ?thesis by (simp add: out_dict_def dict_update_def)
qed

lemma key_fmt_inject [simp]: "key_fmt k t = key_fmt k' t \<longleftrightarrow> k = k'"
  by (simp add: key_fmt_def)

lemma keys_out_dict: "set (keys (out_dict ns t)) = (\<lambda>k. key_fmt k t) ` set (keys ns)"
proof -
  have "keys (map (\<lambda>(k, v). (key_fmt k t, v)) ns) = map (\<lambda>k. key_fmt k t) (keys ns)"
    by (induction ns) (auto simp: keys_def)
  then show ?thesis
    by (simp add: out_dict_as_update keys_dict_update) (simp add: keys_def)
qed

lemma distinct_out_dict: "distinct (map fst (out_dict ns t))"
  by (simp add: out_dict_as_update distinct_dict_update)

lemma map_of_rev_distinct: "distinct (map fst xs) \<Longrightarrow> map_of (rev xs) = map_of xs"
  by (rule map_of_inject_set[THEN iffD2]) (simp_all add: rev_map[symmetric])

lemma map_of_fmt_map:
  "map_of (map (\<lambda>(k, v). (key_fmt k t, v)) xs) (key_fmt k t) = map_of xs k"
  by (induction xs) auto

lemma map_of_out_dict:
  assumes "distinct (map fst ns)"
  shows "map_of (out_dict ns t) (key_fmt k t) = map_of ns k"
proof -
  have "map_of (out_dict ns t) (key_fmt k t) =
        map_of (map (\<lambda>(k, v). (key_fmt k t, v)) (rev ns)) (key_fmt k t)"
    by (simp add: out_dict_as_update map_of_dict_update rev_map split: option.splits)
  also have "\<dots> = map_of (rev ns) k" by (rule map_of_fmt_map)
  finally show ?thesis using assms by (simp add: map_of_rev_distinct)
qed

lemma parse_line_cases:
  assumes "parse_line ns l = Inr ns'"
  shows "ns' = ns \<or> (\<exists>k v. k \<in> set (KEYS_NUM @ KEYS_READ_Q) \<and> ns' = AList.update k v ns)"
  using assms unfolding parse_line_def
  by (auto split: list.splits if_splits option.splits)

lemma parse_line_keys:
  assumes "parse_line ns l = Inr ns'"
  shows "set (keys ns') \<subseteq> set (keys ns) \<union> set (KEYS_NUM @ KEYS_READ_Q)"
    and "distinct (map fst ns) \<Longrightarrow> distinct (map fst ns')"
  using parse_line_cases[OF assms]
  by (auto simp: keys_update AList.distinct_update simp del: set_append)

lemma parse_lines_keys:
  assumes "parse_lines ns ls = Inr ns'"
  shows "set (keys ns') \<subseteq> set (keys ns) \<union> set (KEYS_NUM @ KEYS_READ_Q)
         \<and> (distinct (map fst ns) \<longrightarrow> distinct (map fst ns'))"
  using assms
proof (induction ls arbitrary: ns)
  case Nil
  then show ?case by simp
next
  case (Cons l ls)
  then obtain ns1 where 1: "parse_line ns l = Inr ns1" and 2: "parse_lines ns1 ls = Inr ns'"
    by (auto split: sum.splits)
  from parse_line_keys[OF 1] Cons.IH[OF 2] show ?case by blast
qed

lemma stat_type_of_cases:
  "stat_type_of ns = Some t \<Longrightarrow> t = ''aligned'' \<or> t = ''seq summary''"
  by (auto simp: stat_type_of_def split: if_splits)

lemma parse_lines_append:
  "parse_lines ns (xs @ ys) =
     (case parse_lines ns xs of Inl e \<Rightarrow> Inl e | Inr ns' \<Rightarrow> parse_lines ns' ys)"
  by (induction xs arbitrary: ns) (auto split: sum.splits)

lemma load_logs_append:
  "load_logs st (xs @ ys) =
     (case load_logs st xs of Inl e \<Rightarrow> Inl e | Inr st' \<Rightarrow> load_logs st' ys)"
  by (induction xs arbitrary: st) (auto split: sum.splits)

lemma merge_record_data:
  "map_of (nanostat_data (merge_record st f out_d)) s =
     (if s = s_name f
      then Some (dict_update (case map_of (nanostat_data st) (s_name f) of None \<Rightarrow> [] | Some d \<Rightarrow> d) out_d)
      else map_of (nanostat_data st) s)"
  by (simp add: merge_record_def Let_def AList.update_conv' split: option.splits)

lemma merge_record_log:
  "debug_log (merge_record st f out_d) =
     (case map_of (nanostat_data st) (s_name f) of
        None \<Rightarrow> debug_log st
      | Some d \<Rightarrow>
          if set (keys d) \<inter> set (keys out_d) \<noteq> {}
          then debug_log st @ [DuplicateSample (s_name f)] else debug_log st)"
  by (simp add: merge_record_def Let_def split: option.splits)

lemma parse_lines_distinct:
  "parse_lines [] ls = Inr ns \<Longrightarrow> distinct (map fst ns)"
  using parse_lines_keys[of "[]" ls ns] by simp

lemma merged_values:
  assumes "distinct (map fst ns)" and "(k, v) \<in> set ns"
  shows "map_of (dict_update entry (out_dict ns t)) (key_fmt k t) = Some v"
proof -
  have "map_of ns k = Some v" using assms by simp
  then have "map_of (out_dict ns t) (key_fmt k t) = Some v"
    using assms(1) by (simp add: map_of_out_dict)
  then show ?thesis
    by (simp add: map_of_dict_update map_of_rev_distinct distinct_out_dict)
qed

lemma stored_under_merge:
  assumes "distinct (map fst ns)"
  shows "stored_under (merge_record st f (out_dict ns t)) (s_name f) t ns"
  using merged_values[OF assms]
  by (auto simp: stored_under_def merge_record_data)

lemma parse_line_malformed:
  assumes "split_on CHR '':'' (strip (escape line)) = key # p # ps"
    and "key \<in> set KEYS_NUM"
    and "py_float (remove_commas p) = None"
  shows "parse_line ns line = Inl ValueError"
  using assms by (simp add: parse_line_def)

subsection \<open>The keys of the store\<close>

lemma aligned_not_unrecognized: "key_fmt a ''aligned'' \<noteq> key_fmt b ''unrecognized''"
proof
  assume "key_fmt a ''aligned'' = key_fmt b ''unrecognized''"
  then have "rev (key_fmt a ''aligned'') = rev (key_fmt b ''unrecognized'')" by simp
  then show False by (simp add: key_fmt_def)
qed

lemma seq_summary_not_unrecognized: "key_fmt a ''seq summary'' \<noteq> key_fmt b ''unrecognized''"
proof
  assume "key_fmt a ''seq summary'' = key_fmt b ''unrecognized''"
  then have "rev (key_fmt a ''seq summary'') = rev (key_fmt b ''unrecognized'')" by simp
  then show False by (simp add: key_fmt_def)
qed

lemma composite_not_unrecognized: "composite_key key \<Longrightarrow> key \<noteq> key_fmt k ''unrecognized''"
proof -
  assume "composite_key key"
  then obtain a t where "t = ''aligned'' \<or> t = ''seq summary''" and "key = key_fmt a t"
    by (auto simp: composite_key_def simp del: set_append)
  then show ?thesis
    using aligned_not_unrecognized[of a k] seq_summary_not_unrecognized[of a k] by auto
qed

lemma set_update_subset: "set (AList.update k v al) \<subseteq> insert (k, v) (set al)"
  by (induction al) auto

lemma out_dict_composite:
  assumes "parse_lines [] ls = Inr ns" and "stat_type_of ns = Some t"
    and "key \<in> set (keys (out_dict ns t))"
  shows "composite_key key"
proof -
  from assms(3) obtain k where k: "k \<in> set (keys ns)" "key = key_fmt k t"
    by (auto simp: keys_out_dict)
  from parse_lines_keys[OF assms(1)] k(1) have "k \<in> set (KEYS_NUM @ KEYS_READ_Q)"
    by (auto simp: keys_def simp del: set_append)
  moreover from stat_type_of_cases[OF assms(2)] have "t \<in> set [''aligned'', ''seq summary'']"
    by auto
  ultimately show ?thesis using k(2) unfolding composite_key_def by blast
qed

lemma merge_record_store:
  "nanostat_data (merge_record st f out_d) =
     AList.update (s_name f)
       (dict_update (case map_of (nanostat_data st) (s_name f) of None \<Rightarrow> [] | Some d \<Rightarrow> d) out_d)
       (nanostat_data st)"
  by (auto simp: merge_record_def Let_def split: option.splits)

lemma parse_nanostat_log_keys:
  assumes "store_keys_composite (nanostat_data st)" and "parse_nanostat_log st f = Inr st'"
  shows "store_keys_composite (nanostat_data st')"
proof (cases "parse_lines [] (f_lines f)")
  case (Inl e)
  with assms(2) show ?thesis by (simp add: parse_nanostat_log_def)
next
  case (Inr ns)
  show ?thesis
  proof (cases "stat_type_of ns")
    case None
    with Inr assms show ?thesis by (auto simp: parse_nanostat_log_def)
  next
    case (Some t)
    let ?entry = "case map_of (nanostat_data st) (s_name f) of None \<Rightarrow> [] | Some d \<Rightarrow> d"
    let ?new = "dict_update ?entry (out_dict ns t)"
    have st': "st' = merge_record st f (out_dict ns t)"
      using Inr Some assms(2) by (simp add: parse_nanostat_log_def)
    have data: "set (nanostat_data st') \<subseteq> insert (s_name f, ?new) (set (nanostat_data st))"
      unfolding st' merge_record_store by (rule set_update_subset)
    have entry: "\<forall>key \<in> set (keys ?entry). composite_key key"
    proof (cases "map_of (nanostat_data st) (s_name f)")
      case None
      then show ?thesis by (simp add: keys_def)
    next
      case (Some d)
      then have "(s_name f, d) \<in> set (nanostat_data st)" by (rule map_of_SomeD)
      with assms(1) Some show ?thesis by (auto simp: store_keys_composite_def)
    qed
    have new: "\<forall>key \<in> set (keys ?new). composite_key key"
      using entry out_dict_composite[OF Inr Some] by (auto simp: keys_dict_update)
    show ?thesis
      unfolding store_keys_composite_def
    proof (intro ballI, clarify)
      fix s d key assume "(s, d) \<in> set (nanostat_data st')" "key \<in> set (keys d)"
      with data have "(s, d) = (s_name f, ?new) \<or> (s, d) \<in> set (nanostat_data st)" by auto
      then show "composite_key key"
      proof
        assume "(s, d) = (s_name f, ?new)"
        with new \<open>key \<in> set (keys d)\<close> show ?thesis by simp
      next
        assume "(s, d) \<in> set (nanostat_data st)"
        with assms(1) \<open>key \<in> set (keys d)\<close> show ?thesis
          by (auto simp: store_keys_composite_def)
      qed
    qed
  qed
qed

lemma load_logs_keys:
  "store_keys_composite (nanostat_data st) \<Longrightarrow> load_logs st files = Inr st' \<Longrightarrow>
   store_keys_composite (nanostat_data st')"
proof (induction files arbitrary: st)
  case Nil
  then show ?case by simp
next
  case (Cons f files)
  from Cons.prems(2) obtain st1 where 1: "parse_nanostat_log st f = Inr st1"
    and 2: "load_logs st1 files = Inr st'"
    by (auto split: sum.splits)
  from Cons.IH[OF parse_nanostat_log_keys[OF Cons.prems(1) 1] 2] show ?case .
qed

lemma ignore_samples_keys:
  "store_keys_composite data \<Longrightarrow> store_keys_composite (ignore_samples ignored data)"
  by (auto simp: store_keys_composite_def ignore_samples_def)

lemma no_unrecognized_key:
  assumes "store_keys_composite data" and "(s, d) \<in> set data"
  shows "map_of d (key_fmt k ''unrecognized'') = None"
proof -
  have "key_fmt k ''unrecognized'' \<notin> set (keys d)"
    using assms composite_not_unrecognized[of "key_fmt k ''unrecognized''" k]
    by (auto simp: store_keys_composite_def)
  then show ?thesis by (simp add: keys_def map_of_eq_None_iff)
qed

lemma total_reads_not_unrecognized:
  assumes "map_of d (key_fmt ''Number of reads'' ''unrecognized'') = None"
  shows "snd (get_total_reads d) \<noteq> Some ''unrecognized''"
  using assms by (simp add: get_total_reads_def stat_types_def split: option.splits)

lemma add_column_keys:
  "set (keys (add_column cfg hk i k hs it)) \<subseteq> set (keys hs) \<union> set hk"
  by (cases it) (auto simp: add_column_def Let_def keys_update)

lemma inner_fold_keys:
  "set (keys (fold (\<lambda>it hs. add_column cfg hk i k hs it) its hs)) \<subseteq> set (keys hs) \<union> set hk"
proof (induction its arbitrary: hs)
  case Nil
  then show ?case by simp
next
  case (Cons it its)
  from Cons.IH[of "add_column cfg hk i k hs it"] add_column_keys[of cfg hk i k hs it]
  show ?case by auto
qed

lemma outer_fold_keys:
  "set (keys (fold (\<lambda>(i, k) headers.
             fold (\<lambda>it hs. add_column cfg hk i k hs it) its headers) ks hs))
   \<subseteq> set (keys hs) \<union> set hk"
proof (induction ks arbitrary: hs)
  case Nil
  then show ?case by simp
next
  case (Cons x ks)
  obtain i k where x: "x = (i, k)" by (cases x)
  from Cons.IH[of "fold (\<lambda>it hs. add_column cfg hk i k hs it) its hs"]
    inner_fold_keys[of cfg hk i k its hs]
  show ?case by (auto simp: x)
qed

lemma table_keys:
  "set (keys (nanostat_general_stats_table cfg data)) \<subseteq> set (header_keys data)"
  using outer_fold_keys[of cfg "header_keys data" "enumerate 0 stat_types"
      "enumerate 0 (KEYS_NUM @ KEYS_READ_Q)" "[]"]
  by (simp add: nanostat_general_stats_table_def keys_def)

lemma table_no_unrecognized:
  assumes "store_keys_composite data"
  shows "map_of (nanostat_general_stats_table cfg data) (key_fmt k ''unrecognized'') = None"
proof -
  have "key_fmt k ''unrecognized'' \<notin> set (header_keys data)"
    using assms composite_not_unrecognized[of "key_fmt k ''unrecognized''" k]
    by (auto simp: store_keys_composite_def header_keys_def)
  with table_keys[of cfg data] have "key_fmt k ''unrecognized'' \<notin> set (keys (nanostat_general_stats_table cfg data))"
    by blast
  then show ?thesis by (simp add: keys_def map_of_eq_None_iff)
qed

subsection \<open>Whole numbers in binary64\<close>

lemma round_half_even_int: "round_half_even (of_int m) = m"
  by (simp add: round_half_even_def)

lemma bitlen_small:
  assumes "0 < n" and "n \<le> 2 ^ 53"
  shows "1 \<le> bitlen n" and "bitlen n \<le> 54" and "bitlen n = 54 \<Longrightarrow> n = 2 ^ 53"
proof -
  from bitlen_bounds[OF assms(1)]
  have lo: "2 ^ nat (bitlen n - 1) \<le> n" and hi: "n < 2 ^ nat (bitlen n)" by simp_all
  show 1: "1 \<le> bitlen n"
    using assms(1) bitlen_eq_zero_iff[of n] bitlen_nonneg[of n] by linarith
  show 2: "bitlen n \<le> 54"
  proof (rule ccontr)
    assume "\<not> bitlen n \<le> 54"
    then have "54 \<le> nat (bitlen n - 1)" by simp
    then have "(2::int) ^ 54 \<le> 2 ^ nat (bitlen n - 1)"
      by (rule power_increasing) simp
    with lo assms(2) show False by simp
  qed
  show "n = 2 ^ 53" if "bitlen n = 54"
  proof -
    from that have "nat (bitlen n - 1) = 53" by simp
    with lo have "(2::int) ^ 53 \<le> n" by simp
    with assms(2) show ?thesis by simp
  qed
qed

lemma round64_core:
  fixes n :: int
  assumes "0 < n" and "n \<le> 2 ^ 53"
  defines "e \<equiv> max (floor_log2 (of_int n) - 52) (- 1074)"
  shows "of_int (round_half_even ((of_int n :: rat) / pow2 e)) * pow2 e = (of_int n :: rat)"
proof -
  note b = bitlen_small[OF assms(1,2)]
  have a1: "(1::rat) \<le> of_int n" using assms(1) by simp
  have fl: "floor_log2 (of_int n) = bitlen n - 1"
    using a1 by (simp add: floor_log2_def)
  show ?thesis
  proof (cases "bitlen n = 54")
    case True
    from b(3)[OF True] have n: "n = 2 ^ 53" .
    have e: "e = 1" by (simp add: e_def fl True)
    have "(of_int n :: rat) / 2 = of_int (2 ^ 52)" by (simp add: n)
    then show ?thesis
      unfolding e by (simp add: pow2_def round_half_even_int del: of_int_power of_int_numeral)
  next
    case False
    with b(2) have le: "bitlen n \<le> 53" by simp
    define k where "k = nat (53 - bitlen n)"
    have e: "e = - int k"
      using b(1) le by (simp add: e_def fl k_def)
    have p: "pow2 (- int k) = 1 / 2 ^ k"
      by (cases "k = 0") (simp_all add: pow2_def)
    have q: "(of_int n :: rat) / (1 / 2 ^ k) = of_int (n * 2 ^ k)" by simp
    show ?thesis
      unfolding e p q round_half_even_int by simp
  qed
qed

lemma not_overflow:
  fixes n :: int
  assumes "n \<le> 2 ^ 53"
  shows "\<not> (2::rat) ^ 1024 \<le> of_int n"
proof -
  have "(of_int n :: rat) \<le> 2 ^ 53"
    using assms by (simp flip: of_int_le_iff add: of_int_power)
  moreover have "(2::rat) ^ 53 < 2 ^ 1024"
    by (rule power_strict_increasing) simp_all
  ultimately show ?thesis by linarith
qed

lemma round64_int:
  assumes "\<bar>n\<bar> \<le> 2 ^ 53"
  shows "round64 (of_int n) = FNum (of_int n)"
proof -
  consider "n = 0" | "0 < n" | "n < 0" by linarith
  then show ?thesis
  proof cases
    case 1
    then show ?thesis by (simp add: round64_def)
  next
    case 2
    with assms have le: "n \<le> 2 ^ 53" by simp
    have "\<bar>of_int n :: rat\<bar> = of_int n" using 2 by simp
    then show ?thesis
      using 2 round64_core[OF 2 le] not_overflow[OF le] by (simp add: round64_def Let_def)
  next
    case 3
    define m where "m = - n"
    have m: "0 < m" "m \<le> 2 ^ 53" using 3 assms by (simp_all add: m_def)
    have "\<bar>of_int n :: rat\<bar> = of_int m" using 3 by (simp add: m_def)
    then show ?thesis
      using 3 round64_core[OF m] not_overflow[OF m(2)]
      by (simp add: round64_def Let_def m_def)
  qed
qed

lemma round64_numeral:
  "numeral k \<le> (2::int) ^ 53 \<Longrightarrow> round64 (numeral k) = FNum (numeral k)"
  using round64_int[of "numeral k"] by simp

lemma round64_neg_numeral:
  "numeral k \<le> (2::int) ^ 53 \<Longrightarrow> round64 (- numeral k) = FNum (- numeral k)"
  using round64_int[of "- numeral k"] by simp

lemma round64_zero: "round64 0 = FNum 0"
  by (simp add: round64_def)

lemma round64_one: "round64 1 = FNum 1"
  using round64_int[of 1] by simp

lemmas round64_whole = round64_numeral round64_neg_numeral round64_zero round64_one

text \<open>The first odd number above \<open>2 ^ 53\<close> is a tie, which goes to the even neighbour.\<close>

lemma bitlen_two_53_plus_1: "bitlen 9007199254740993 = 54"
  by code_simp

lemma floor_half_two_53_plus_1: "\<lfloor>(9007199254740993 :: rat) / 2\<rfloor> = 4503599627370496"
  by (simp add: floor_divide_of_int_eq[of 9007199254740993 2, where ?'a = rat, simplified])

lemma round64_two_53_plus_1: "round64 9007199254740993 = FNum 9007199254740992"
  by (simp add: round64_def floor_log2_def bitlen_two_53_plus_1 pow2_def round_half_even_def
      Let_def floor_half_two_53_plus_1)

lemma bitlen_two_53_plus_2: "bitlen 9007199254740994 = 54"
  by code_simp

lemma round64_two_53_plus_2: "round64 9007199254740994 = FNum 9007199254740994"
  by (simp add: round64_def floor_log2_def bitlen_two_53_plus_2 pow2_def round_half_even_def
      Let_def)

subsection \<open>Subtraction on whole numbers\<close>

lemma to_float_whole:
  assumes "num_of a = Some (of_int x)" and "0 \<le> x" and "x \<le> 2 ^ 53"
  shows "to_float a = Inr (FNum (of_int x))"
proof (cases a)
  case (PInt i)
  with assms(1) have "i = x" by simp
  moreover have "round64 (of_int x) = FNum (of_int x)"
    using assms(2,3) by (intro round64_int) simp
  ultimately show ?thesis using PInt by simp
next
  case (PFloat f)
  with assms(1) show ?thesis by (cases f) simp_all
qed

lemma py_sub_whole:
  assumes "num_of a = Some (of_int x)" and "num_of b = Some (of_int y)"
    and "0 \<le> y" and "y \<le> x" and "x \<le> 2 ^ 53"
  shows "\<exists>c. py_sub a b = Inr c \<and> num_of c = Some (of_int (x - y)) \<and> py_ge0 c"
proof -
  have x0: "0 \<le> x" and y53: "y \<le> 2 ^ 53" using assms(3,4,5) by simp_all
  have d: "0 \<le> x - y" "x - y \<le> 2 ^ 53" using assms(3,4,5) by simp_all
  show ?thesis
  proof (cases "\<exists>i j. a = PInt i \<and> b = PInt j")
    case True
    then obtain i j where "a = PInt i" "b = PInt j" by blast
    with assms(1,2,4) show ?thesis by simp
  next
    case False
    then have "py_sub a b =
        (case to_float a of
           Inl e \<Rightarrow> Inl e
         | Inr u \<Rightarrow> (case to_float b of Inl e \<Rightarrow> Inl e | Inr v \<Rightarrow> Inr (PFloat (fl_sub u v))))"
      by (cases a; cases b) auto
    then have "py_sub a b = Inr (PFloat (round64 (of_int x - of_int y)))"
      by (simp add: to_float_whole[OF assms(1) x0 assms(5)] to_float_whole[OF assms(2,3) y53])
    moreover have "round64 (of_int x - of_int y) = FNum (of_int (x - y))"
      using round64_int[of "x - y"] d by simp
    ultimately show ?thesis using d(1) by simp
  qed
qed

lemma to_float_100: "num_of a = Some 100 \<Longrightarrow> to_float a = Inr (FNum 100)"
proof (cases a)
  case (PInt i)
  assume "num_of a = Some 100"
  with PInt have "i = 100" by simp
  with PInt show ?thesis by (simp add: round64_whole)
next
  case (PFloat f)
  assume "num_of a = Some 100"
  with PFloat show ?thesis by (cases f) simp_all
qed

lemma to_float_120: "num_of a = Some 120 \<Longrightarrow> to_float a = Inr (FNum 120)"
proof (cases a)
  case (PInt i)
  assume "num_of a = Some 120"
  with PInt have "i = 120" by simp
  with PInt show ?thesis by (simp add: round64_whole)
next
  case (PFloat f)
  assume "num_of a = Some 120"
  with PFloat show ?thesis by (cases f) simp_all
qed

lemma py_sub_100_120:
  assumes "num_of a = Some 100" and "num_of b = Some 120"
  shows "\<exists>c. py_sub a b = Inr c \<and> num_of c = Some (- 20) \<and> \<not> py_ge0 c"
proof (cases "\<exists>i j. a = PInt i \<and> b = PInt j")
  case True
  then obtain i j where "a = PInt i" "b = PInt j" by blast
  with assms show ?thesis by simp
next
  case False
  then have "py_sub a b =
      (case to_float a of
         Inl e \<Rightarrow> Inl e
       | Inr u \<Rightarrow> (case to_float b of Inl e \<Rightarrow> Inl e | Inr v \<Rightarrow> Inr (PFloat (fl_sub u v))))"
    by (cases a; cases b) auto
  then have "py_sub a b = Inr (PFloat (FNum (- 20)))"
    by (simp add: to_float_100[OF assms(1)] to_float_120[OF assms(2)] round64_whole)
  then show ?thesis by simp
qed

lemma py_ge0_whole: "num_of a = Some (of_int x) \<Longrightarrow> 0 \<le> x \<Longrightarrow> py_ge0 a"
proof (cases a)
  case (PInt i)
  assume "num_of a = Some (of_int x)" "0 \<le> x"
  with PInt show ?thesis by simp
next
  case (PFloat f)
  assume "num_of a = Some (of_int x)" "0 \<le> x"
  with PFloat show ?thesis by (cases f) simp_all
qed

subsection \<open>Auxiliary facts about the histogram\<close>

lemma sample_fails_plot_fails:
  "(sn, d) \<in> set data \<Longrightarrow> sample_bars sn d = Inl e \<Longrightarrow> \<exists>e'. plot_loop bar_data t data = Inl e'"
proof (induction data arbitrary: bar_data t)
  case Nil
  then show ?case by simp
next
  case (Cons x data)
  obtain sn' d' where x: "x = (sn', d')" by (cases x)
  show ?case
  proof (cases "sample_bars sn' d'")
    case (Inl a)
    then show ?thesis by (simp add: x)
  next
    case (Inr row)
    with Cons.prems x have "(sn, d) \<in> set data" by auto
    from Cons.IH[OF this Cons.prems(2)] Inr show ?thesis by (simp add: x)
  qed
qed

lemma plot_loop_other:
  "plot_loop bar_data t data = Inr (bar_data', t') \<Longrightarrow> sn \<notin> fst ` set data \<Longrightarrow>
   map_of bar_data' sn = map_of bar_data sn"
proof (induction data arbitrary: bar_data t)
  case Nil
  then show ?case by simp
next
  case (Cons x data)
  obtain sn' d' where x: "x = (sn', d')" by (cases x)
  from Cons.prems(1) obtain row where row: "sample_bars sn' d' = Inr row"
    and rest: "plot_loop (AList.update sn' row bar_data) (snd (get_total_reads d')) data =
               Inr (bar_data', t')"
    by (auto simp: x split: sum.splits)
  from Cons.prems(2) have "sn \<noteq> sn'" "sn \<notin> fst ` set data" by (auto simp: x)
  with Cons.IH[OF rest] show ?case by (simp add: AList.update_conv')
qed

lemma plot_loop_row:
  "plot_loop bar_data t data = Inr (bar_data', t') \<Longrightarrow> distinct (map fst data) \<Longrightarrow>
   (sn, d) \<in> set data \<Longrightarrow> sample_bars sn d = Inr row \<Longrightarrow> map_of bar_data' sn = Some row"
proof (induction data arbitrary: bar_data t)
  case Nil
  then show ?case by simp
next
  case (Cons x data)
  obtain sn' d' where x: "x = (sn', d')" by (cases x)
  from Cons.prems(1) obtain row' where row': "sample_bars sn' d' = Inr row'"
    and rest: "plot_loop (AList.update sn' row' bar_data) (snd (get_total_reads d')) data =
               Inr (bar_data', t')"
    by (auto simp: x split: sum.splits)
  from Cons.prems(2) have dist: "sn' \<notin> fst ` set data" "distinct (map fst data)"
    by (auto simp: x)
  show ?case
  proof (cases "(sn, d) = (sn', d')")
    case True
    with row' Cons.prems(4) have "row' = row" by simp
    with plot_loop_other[OF rest dist(1)] True show ?thesis
      by (simp add: AList.update_conv')
  next
    case False
    with Cons.prems(3) have "(sn, d) \<in> set data" by (auto simp: x)
    from Cons.IH[OF rest dist(2) this Cons.prems(4)] show ?thesis .
  qed
qed

lemma plot_row:
  assumes "nanostat_alignment_plot data = Inr plot" and "distinct (map fst data)"
    and "(sn, d) \<in> set data" and "sample_bars sn d = Inr row"
  shows "map_of (p_data plot) sn = Some row"
proof -
  from assms(1) obtain bd t where 1: "plot_loop [] (Some ''unrecognized'') data = Inr (bd, t)"
    and 2: "p_data plot = bd"
    by (auto simp: nanostat_alignment_plot_def split: sum.splits)
  from plot_loop_row[OF 1 assms(2,3,4)] 2 show ?thesis by simp
qed

lemma plot_single:
  assumes "sample_bars sn d = Inr row"
  shows "\<exists>plot. nanostat_alignment_plot [(sn, d)] = Inr plot \<and> p_data plot = [(sn, row)]"
  using assms by (simp add: nanostat_alignment_plot_def)


text \<open>The definitions that evaluate the histogram and the loading of a stream.\<close>

lemmas plot_defs = nanostat_alignment_plot_def sample_bars_def get_total_reads_def
  stat_types_def range_names_def key_fmt_def str_of_def

lemmas load_defs = parse_nanostat_log_def stat_type_of_def out_dict_def key_fmt_def
  merge_record_def dict_update_def initial_state_def keys_def

subsection \<open>Columns of a hidden template\<close>

lemma add_column_other:
  "key_fmt k t \<noteq> K \<Longrightarrow> map_of (add_column cfg hk i k hs (j, t)) K = map_of hs K"
  by (simp add: add_column_def Let_def AList.update_conv')

lemma add_column_hidden_template:
  assumes "key_fmt k t = K" and "K \<in> set hk"
    and "map_option h_hidden (map_of (headers_base cfg) k) = Some (Some True)"
  shows "map_option h_hidden (map_of (add_column cfg hk i k hs (j, t)) K) = Some (Some True)"
proof -
  from assms(3) obtain h where h: "map_of (headers_base cfg) k = Some h" "h_hidden h = Some True"
    by (cases "map_of (headers_base cfg) k") auto
  show ?thesis
    using assms(1,2) h
    by (cases "h_title h") (simp_all add: add_column_def Let_def AList.update_conv')
qed

lemma mean_quality_template:
  "map_option h_hidden (map_of (headers_base cfg) ''Mean read quality'') = Some (Some True)"
  by (simp add: headers_base_def empty_header_def)

lemma mean_quality_aligned_hidden:
  assumes "''Mean read quality (aligned)'' \<in> set (header_keys data)"
  shows "map_option h_hidden
           (map_of (nanostat_general_stats_table cfg data) ''Mean read quality (aligned)'') =
         Some (Some True)"
  unfolding nanostat_general_stats_table_def stat_types_def KEYS_NUM_def KEYS_READ_Q_def
  using assms
  by (simp add: add_column_other add_column_hidden_template mean_quality_template key_fmt_def)

lemma mean_quality_seq_summary_hidden:
  assumes "''Mean read quality (seq summary)'' \<in> set (header_keys data)"
  shows "map_option h_hidden
           (map_of (nanostat_general_stats_table cfg data) ''Mean read quality (seq summary)'') =
         Some (Some True)"
  unfolding nanostat_general_stats_table_def stat_types_def KEYS_NUM_def KEYS_READ_Q_def
  using assms
  by (simp add: add_column_other add_column_hidden_template mean_quality_template key_fmt_def)

lemma key_in_header_keys:
  assumes "(sn, d) \<in> set data" and "map_of d K \<noteq> None"
  shows "K \<in> set (header_keys data)"
proof -
  from assms(2) have "K \<in> set (keys d)"
    by (simp add: keys_def map_of_eq_None_iff)
  with assms(1) show ?thesis by (auto simp: header_keys_def)
qed

subsection \<open>The histogram of a sample with monotonic counts\<close>

text \<open>
  Claim C1, as amended. Let \<^verbatim>\<open>_get_total_reads\<close> find the total \<open>rt\<close> of a sample under the
  variant \<open>t\<close>, let the sample store the five cumulative counts of that variant, let
  all six be whole numbers, and let \<open>2 ^ 53 \<ge> rt \<ge> q5 \<ge> q7 \<ge> q10 \<ge> q12 \<ge> q15 \<ge> 0\<close>. Then
  the derivation returns exactly the six buckets \<^verbatim>\<open>&lt;Q5\<close>, \<^verbatim>\<open>Q5-7\<close>, \<^verbatim>\<open>Q7-10\<close>, \<^verbatim>\<open>Q10-12\<close>,
  \<^verbatim>\<open>Q12-15\<close>, \<^verbatim>\<open>&gt;Q15\<close>, whose values are the differences of neighbouring counts, each of
  them is at least 0, and they add up to \<open>rt\<close>. The plot of the store that holds this
  sample alone has that row, and so has every plot that the derivation returns for a
  store with the sample.
\<close>

theorem histogram_valid_sample:
  assumes "get_total_reads d = (Some rt, Some t)"
    and "map_of d (key_fmt ''&gt;Q5'' t) = Some q5"
    and "map_of d (key_fmt ''&gt;Q7'' t) = Some q7"
    and "map_of d (key_fmt ''&gt;Q10'' t) = Some q10"
    and "map_of d (key_fmt ''&gt;Q12'' t) = Some q12"
    and "map_of d (key_fmt ''&gt;Q15'' t) = Some q15"
    and "num_of rt = Some (of_int n)" and "num_of q5 = Some (of_int n5)"
    and "num_of q7 = Some (of_int n7)" and "num_of q10 = Some (of_int n10)"
    and "num_of q12 = Some (of_int n12)" and "num_of q15 = Some (of_int n15)"
    and "n \<le> 2 ^ 53" and "n5 \<le> n" and "n7 \<le> n5" and "n10 \<le> n7" and "n12 \<le> n10"
    and "n15 \<le> n12" and "0 \<le> n15"
  shows "\<exists>b0 b1 b2 b3 b4.
           sample_bars sn d =
             Inr [(''&lt;Q5'', b0), (''Q5-7'', b1), (''Q7-10'', b2), (''Q10-12'', b3),
                  (''Q12-15'', b4), (''&gt;Q15'', q15)]
         \<and> num_of b0 = Some (of_int (n - n5)) \<and> num_of b1 = Some (of_int (n5 - n7))
         \<and> num_of b2 = Some (of_int (n7 - n10)) \<and> num_of b3 = Some (of_int (n10 - n12))
         \<and> num_of b4 = Some (of_int (n12 - n15))
         \<and> py_ge0 b0 \<and> py_ge0 b1 \<and> py_ge0 b2 \<and> py_ge0 b3 \<and> py_ge0 b4 \<and> py_ge0 q15
         \<and> bucket_sum [(''&lt;Q5'', b0), (''Q5-7'', b1), (''Q7-10'', b2), (''Q10-12'', b3),
                        (''Q12-15'', b4), (''&gt;Q15'', q15)] = num_of rt
         \<and> (\<exists>plot. nanostat_alignment_plot [(sn, d)] = Inr plot
                \<and> p_data plot =
                    [(sn, [(''&lt;Q5'', b0), (''Q5-7'', b1), (''Q7-10'', b2), (''Q10-12'', b3),
                           (''Q12-15'', b4), (''&gt;Q15'', q15)])])
         \<and> (\<forall>data plot.
                nanostat_alignment_plot data = Inr plot \<and> distinct (map fst data)
                \<and> (sn, d) \<in> set data \<longrightarrow>
                map_of (p_data plot) sn =
                  Some [(''&lt;Q5'', b0), (''Q5-7'', b1), (''Q7-10'', b2), (''Q10-12'', b3),
                        (''Q12-15'', b4), (''&gt;Q15'', q15)])"
proof -
  have le: "n5 \<le> 2 ^ 53" "n7 \<le> 2 ^ 53" "n10 \<le> 2 ^ 53" "n12 \<le> 2 ^ 53"
    and ge: "0 \<le> n12" "0 \<le> n10" "0 \<le> n7" "0 \<le> n5"
    using assms(13-19) by simp_all
  from py_sub_whole[OF assms(7,8) ge(4) assms(14,13)]
  obtain b0 where b0: "py_sub rt q5 = Inr b0" "num_of b0 = Some (of_int (n - n5))" "py_ge0 b0"
    by blast
  from py_sub_whole[OF assms(8,9) ge(3) assms(15) le(1)]
  obtain b1 where b1: "py_sub q5 q7 = Inr b1" "num_of b1 = Some (of_int (n5 - n7))" "py_ge0 b1"
    by blast
  from py_sub_whole[OF assms(9,10) ge(2) assms(16) le(2)]
  obtain b2 where b2: "py_sub q7 q10 = Inr b2" "num_of b2 = Some (of_int (n7 - n10))" "py_ge0 b2"
    by blast
  from py_sub_whole[OF assms(10,11) ge(1) assms(17) le(3)]
  obtain b3 where b3: "py_sub q10 q12 = Inr b3" "num_of b3 = Some (of_int (n10 - n12))" "py_ge0 b3"
    by blast
  from py_sub_whole[OF assms(11,12) assms(19) assms(18) le(4)]
  obtain b4 where b4: "py_sub q12 q15 = Inr b4" "num_of b4 = Some (of_int (n12 - n15))" "py_ge0 b4"
    by blast
  let ?row = "[(''&lt;Q5'', b0), (''Q5-7'', b1), (''Q7-10'', b2), (''Q10-12'', b3),
               (''Q12-15'', b4), (''&gt;Q15'', q15)]"
  have g15: "py_ge0 q15" by (rule py_ge0_whole[OF assms(12,19)])
  have row: "sample_bars sn d = Inr ?row"
    using assms(1-6) b0(1,3) b1(1,3) b2(1,3) b3(1,3) b4(1,3)
    by (simp add: sample_bars_def range_names_def str_of_def)
  have total: "bucket_sum ?row = num_of rt"
    by (simp add: bucket_sum_def b0(2) b1(2) b2(2) b3(2) b4(2) assms(7,12))
  have single: "\<exists>plot. nanostat_alignment_plot [(sn, d)] = Inr plot \<and> p_data plot = [(sn, ?row)]"
    by (rule plot_single[OF row])
  have store: "\<forall>data plot.
                nanostat_alignment_plot data = Inr plot \<and> distinct (map fst data)
                \<and> (sn, d) \<in> set data \<longrightarrow> map_of (p_data plot) sn = Some ?row"
    using plot_row[OF _ _ _ row] by blast
  from row b0(2,3) b1(2,3) b2(2,3) b3(2,3) b4(2,3) g15 total single store
  show ?thesis by blast
qed

theorem histogram_valid_sample_witness:
  "\<exists>b0 b1 b2 b3 b4.
     sample_bars ''S1''
       [(''Number of reads (aligned)'', PFloat (FNum 1000)), (''&gt;Q5 (aligned)'', PInt 900),
        (''&gt;Q7 (aligned)'', PInt 700), (''&gt;Q10 (aligned)'', PInt 400),
        (''&gt;Q12 (aligned)'', PInt 200), (''&gt;Q15 (aligned)'', PInt 50)] =
       Inr [(''&lt;Q5'', b0), (''Q5-7'', b1), (''Q7-10'', b2), (''Q10-12'', b3),
            (''Q12-15'', b4), (''&gt;Q15'', PInt 50)]
   \<and> num_of b0 = Some 100 \<and> num_of b1 = Some 200 \<and> num_of b2 = Some 300
   \<and> num_of b3 = Some 200 \<and> num_of b4 = Some 150
   \<and> bucket_sum [(''&lt;Q5'', b0), (''Q5-7'', b1), (''Q7-10'', b2), (''Q10-12'', b3),
                  (''Q12-15'', b4), (''&gt;Q15'', PInt 50)] = Some 1000
   \<and> map_of
       (p_data
          (projr
             (nanostat_alignment_plot
                [(''S0'', [(''Number of reads (seq summary)'', PFloat (FNum 3)),
                          (''&gt;Q5 (seq summary)'', PInt 3), (''&gt;Q7 (seq summary)'', PInt 2),
                          (''&gt;Q10 (seq summary)'', PInt 2), (''&gt;Q12 (seq summary)'', PInt 1),
                          (''&gt;Q15 (seq summary)'', PInt 0)]),
                 (''S1'', [(''Number of reads (aligned)'', PFloat (FNum 1000)),
                          (''&gt;Q5 (aligned)'', PInt 900), (''&gt;Q7 (aligned)'', PInt 700),
                          (''&gt;Q10 (aligned)'', PInt 400), (''&gt;Q12 (aligned)'', PInt 200),
                          (''&gt;Q15 (aligned)'', PInt 50)])])))
       ''S1'' =
     Some [(''&lt;Q5'', b0), (''Q5-7'', b1), (''Q7-10'', b2), (''Q10-12'', b3),
           (''Q12-15'', b4), (''&gt;Q15'', PInt 50)]"
proof -
  let ?d = "[(''Number of reads (aligned)'', PFloat (FNum 1000)), (''&gt;Q5 (aligned)'', PInt 900),
      (''&gt;Q7 (aligned)'', PInt 700), (''&gt;Q10 (aligned)'', PInt 400),
      (''&gt;Q12 (aligned)'', PInt 200), (''&gt;Q15 (aligned)'', PInt 50)]"
  let ?other = "[(''Number of reads (seq summary)'', PFloat (FNum 3)),
              (''&gt;Q5 (seq summary)'', PInt 3), (''&gt;Q7 (seq summary)'', PInt 2),
              (''&gt;Q10 (seq summary)'', PInt 2), (''&gt;Q12 (seq summary)'', PInt 1),
              (''&gt;Q15 (seq summary)'', PInt 0)]"
  let ?data = "[(''S0'', ?other), (''S1'', ?d)]"
  have h1: "get_total_reads ?d = (Some (PFloat (FNum 1000)), Some ''aligned'')"
    by (simp add: plot_defs)
  have h2: "map_of ?d (key_fmt ''&gt;Q5'' ''aligned'') = Some (PInt 900)"
    by (simp add: key_fmt_def)
  have h3: "map_of ?d (key_fmt ''&gt;Q7'' ''aligned'') = Some (PInt 700)"
    by (simp add: key_fmt_def)
  have h4: "map_of ?d (key_fmt ''&gt;Q10'' ''aligned'') = Some (PInt 400)"
    by (simp add: key_fmt_def)
  have h5: "map_of ?d (key_fmt ''&gt;Q12'' ''aligned'') = Some (PInt 200)"
    by (simp add: key_fmt_def)
  have h6: "map_of ?d (key_fmt ''&gt;Q15'' ''aligned'') = Some (PInt 50)"
    by (simp add: key_fmt_def)
  have n: "num_of (PFloat (FNum 1000)) = Some (of_int 1000)"
    "num_of (PInt 900) = Some (of_int 900)" "num_of (PInt 700) = Some (of_int 700)"
    "num_of (PInt 400) = Some (of_int 400)" "num_of (PInt 200) = Some (of_int 200)"
    "num_of (PInt 50) = Some (of_int 50)" by simp_all
  have o: "(1000::int) \<le> 2 ^ 53" "(900::int) \<le> 1000" "(700::int) \<le> 900" "(400::int) \<le> 700"
    "(200::int) \<le> 400" "(50::int) \<le> 200" "(0::int) \<le> 50" by simp_all
  have "\<not> isl (nanostat_alignment_plot ?data)"
    by (simp add: plot_defs round64_whole)
  then have plot: "nanostat_alignment_plot ?data = Inr (projr (nanostat_alignment_plot ?data))"
    by simp
  have dist: "distinct (map fst ?data)" by simp
  have mem: "(''S1'', ?d) \<in> set ?data" by simp
  from histogram_valid_sample[OF h1 h2 h3 h4 h5 h6 n o, of "''S1''"]
  obtain b0 b1 b2 b3 b4 where r:
    "sample_bars ''S1'' ?d =
       Inr [(''&lt;Q5'', b0), (''Q5-7'', b1), (''Q7-10'', b2), (''Q10-12'', b3),
            (''Q12-15'', b4), (''&gt;Q15'', PInt 50)]"
    "num_of b0 = Some (of_int (1000 - 900))" "num_of b1 = Some (of_int (900 - 700))"
    "num_of b2 = Some (of_int (700 - 400))" "num_of b3 = Some (of_int (400 - 200))"
    "num_of b4 = Some (of_int (200 - 50))"
    "bucket_sum [(''&lt;Q5'', b0), (''Q5-7'', b1), (''Q7-10'', b2), (''Q10-12'', b3),
                 (''Q12-15'', b4), (''&gt;Q15'', PInt 50)] = num_of (PFloat (FNum 1000))"
    "\<forall>data plot.
        nanostat_alignment_plot data = Inr plot \<and> distinct (map fst data)
        \<and> (''S1'', ?d) \<in> set data \<longrightarrow>
        map_of (p_data plot) ''S1'' =
          Some [(''&lt;Q5'', b0), (''Q5-7'', b1), (''Q7-10'', b2), (''Q10-12'', b3),
                (''Q12-15'', b4), (''&gt;Q15'', PInt 50)]"
    by blast
  from r(8) plot dist mem
  have "map_of (p_data (projr (nanostat_alignment_plot ?data))) ''S1'' =
          Some [(''&lt;Q5'', b0), (''Q5-7'', b1), (''Q7-10'', b2), (''Q10-12'', b3),
                (''Q12-15'', b4), (''&gt;Q15'', PInt 50)]"
    by blast
  with r(1-7) show ?thesis by simp
qed

text \<open>
  Claim C1 as it is written has no bound on the counts, and fails above \<open>2 ^ 53\<close>:
  the total is a float, so the first bucket is a float difference, which is rounded.
  The stream below is stored with the total \<open>2 ^ 53 + 2\<close> and five counts of 1, which
  are monotonic; the first bucket is \<open>2 ^ 53\<close>, not \<open>2 ^ 53 + 1\<close>, and the six buckets add
  up to \<open>2 ^ 53 + 1\<close>, not to the total.
\<close>

theorem histogram_rounding_counterexample:
  "parse_nanostat_log initial_state
     \<lparr>f_lines = [''Active channels: 512'', ''Number of reads: 9007199254740994'', ''>Q5: 1'',
                 ''>Q7: 1'', ''>Q10: 1'', ''>Q12: 1'', ''>Q15: 1''],
      fn = ''S1.txt'', s_name = ''S1''\<rparr> =
   Inr \<lparr>nanostat_data =
          [(''S1'', [(''Active channels (seq summary)'', PFloat (FNum 512)),
                    (''Number of reads (seq summary)'', PFloat (FNum 9007199254740994)),
                    (''&gt;Q5 (seq summary)'', PInt 1), (''&gt;Q7 (seq summary)'', PInt 1),
                    (''&gt;Q10 (seq summary)'', PInt 1), (''&gt;Q12 (seq summary)'', PInt 1),
                    (''&gt;Q15 (seq summary)'', PInt 1)])],
        debug_log = [],
        data_sources =
          [\<lparr>f_lines = [''Active channels: 512'', ''Number of reads: 9007199254740994'',
                       ''>Q5: 1'', ''>Q7: 1'', ''>Q10: 1'', ''>Q12: 1'', ''>Q15: 1''],
            fn = ''S1.txt'', s_name = ''S1''\<rparr>]\<rparr>
   \<and> sample_bars ''S1''
        [(''Active channels (seq summary)'', PFloat (FNum 512)),
         (''Number of reads (seq summary)'', PFloat (FNum 9007199254740994)),
         (''&gt;Q5 (seq summary)'', PInt 1), (''&gt;Q7 (seq summary)'', PInt 1),
         (''&gt;Q10 (seq summary)'', PInt 1), (''&gt;Q12 (seq summary)'', PInt 1),
         (''&gt;Q15 (seq summary)'', PInt 1)] =
     Inr [(''&lt;Q5'', PFloat (FNum 9007199254740992)), (''Q5-7'', PInt 0), (''Q7-10'', PInt 0),
          (''Q10-12'', PInt 0), (''Q12-15'', PInt 0), (''&gt;Q15'', PInt 1)]
   \<and> bucket_sum
        [(''&lt;Q5'', PFloat (FNum 9007199254740992)), (''Q5-7'', PInt 0), (''Q7-10'', PInt 0),
         (''Q10-12'', PInt 0), (''Q12-15'', PInt 0), (''&gt;Q15'', PInt 1)] =
     Some 9007199254740993
   \<and> num_of (PFloat (FNum 9007199254740994)) = Some 9007199254740994
   \<and> bucket_sum
        [(''&lt;Q5'', PFloat (FNum 9007199254740992)), (''Q5-7'', PInt 0), (''Q7-10'', PInt 0),
         (''Q10-12'', PInt 0), (''Q12-15'', PInt 0), (''&gt;Q15'', PInt 1)] \<noteq>
     num_of (PFloat (FNum 9007199254740994))"
proof -
  have 1: "parse_lines []
             [''Active channels: 512'', ''Number of reads: 9007199254740994'', ''>Q5: 1'',
              ''>Q7: 1'', ''>Q10: 1'', ''>Q12: 1'', ''>Q15: 1''] =
           Inr [(''Active channels'', PFloat (FNum 512)),
                (''Number of reads'', PFloat (FNum 9007199254740994)),
                (''&gt;Q5'', PInt 1), (''&gt;Q7'', PInt 1), (''&gt;Q10'', PInt 1),
                (''&gt;Q12'', PInt 1), (''&gt;Q15'', PInt 1)]"
    by (simp add: eval_defs round64_whole round64_two_53_plus_2)
  have 2: "sample_bars ''S1''
        [(''Active channels (seq summary)'', PFloat (FNum 512)),
         (''Number of reads (seq summary)'', PFloat (FNum 9007199254740994)),
         (''&gt;Q5 (seq summary)'', PInt 1), (''&gt;Q7 (seq summary)'', PInt 1),
         (''&gt;Q10 (seq summary)'', PInt 1), (''&gt;Q12 (seq summary)'', PInt 1),
         (''&gt;Q15 (seq summary)'', PInt 1)] =
     Inr [(''&lt;Q5'', PFloat (FNum 9007199254740992)), (''Q5-7'', PInt 0), (''Q7-10'', PInt 0),
          (''Q10-12'', PInt 0), (''Q12-15'', PInt 0), (''&gt;Q15'', PInt 1)]"
    by (simp add: plot_defs round64_whole round64_two_53_plus_1)
  have 3: "parse_nanostat_log initial_state
     \<lparr>f_lines = [''Active channels: 512'', ''Number of reads: 9007199254740994'', ''>Q5: 1'',
                 ''>Q7: 1'', ''>Q10: 1'', ''>Q12: 1'', ''>Q15: 1''],
      fn = ''S1.txt'', s_name = ''S1''\<rparr> =
   Inr \<lparr>nanostat_data =
          [(''S1'', [(''Active channels (seq summary)'', PFloat (FNum 512)),
                    (''Number of reads (seq summary)'', PFloat (FNum 9007199254740994)),
                    (''&gt;Q5 (seq summary)'', PInt 1), (''&gt;Q7 (seq summary)'', PInt 1),
                    (''&gt;Q10 (seq summary)'', PInt 1), (''&gt;Q12 (seq summary)'', PInt 1),
                    (''&gt;Q15 (seq summary)'', PInt 1)])],
        debug_log = [],
        data_sources =
          [\<lparr>f_lines = [''Active channels: 512'', ''Number of reads: 9007199254740994'',
                       ''>Q5: 1'', ''>Q7: 1'', ''>Q10: 1'', ''>Q12: 1'', ''>Q15: 1''],
            fn = ''S1.txt'', s_name = ''S1''\<rparr>]\<rparr>"
    using 1 by (simp add: load_defs)
  show ?thesis
    unfolding 2 3 by (simp add: bucket_sum_def)
qed

subsection \<open>A cumulative count above the total\<close>

text \<open>
  Claim C6. For a sample whose total is 100 and whose count above Q5 is 120, the
  derivation of that sample raises the AssertionError of source line 268 (the bucket
  is neither clamped nor left out), and so does the derivation over every store that
  holds the sample: it returns no plot.
\<close>

theorem histogram_negative_bucket_fails:
  assumes "get_total_reads d = (Some rt, Some t)"
    and "num_of rt = Some 100"
    and "map_of d (key_fmt ''&gt;Q5'' t) = Some q5"
    and "num_of q5 = Some 120"
  shows "sample_bars sn d =
           Inl (AssertionError (''Error on '' @ sn @ '' &lt;Q5 '' @ key_fmt ''&gt;Q5'' t @
                                '' . Negative number of reads''))
         \<and> ((sn, d) \<in> set data \<longrightarrow> (\<exists>e. nanostat_alignment_plot data = Inl e))"
proof -
  from py_sub_100_120[OF assms(2,4)]
  obtain v where neg: "py_sub rt q5 = Inr v" "\<not> py_ge0 v" by blast
  have sb: "sample_bars sn d =
           Inl (AssertionError (''Error on '' @ sn @ '' &lt;Q5 '' @ key_fmt ''&gt;Q5'' t @
                                '' . Negative number of reads''))"
    using assms(1,3) neg by (simp add: sample_bars_def range_names_def str_of_def)
  have "\<exists>e. nanostat_alignment_plot data = Inl e" if "(sn, d) \<in> set data"
  proof -
    from sample_fails_plot_fails[OF that sb]
    obtain e' where "plot_loop [] (Some ''unrecognized'') data = Inl e'" by blast
    then show ?thesis by (simp add: nanostat_alignment_plot_def)
  qed
  with sb show ?thesis by blast
qed

theorem histogram_negative_bucket_fails_witness:
  "sample_bars ''S1'' [(''Number of reads (aligned)'', PFloat (FNum 100)), (''&gt;Q5 (aligned)'', PInt 120)] =
     Inl (AssertionError ''Error on S1 &lt;Q5 &gt;Q5 (aligned) . Negative number of reads'')
   \<and> nanostat_alignment_plot
        [(''S1'', [(''Number of reads (aligned)'', PFloat (FNum 100)), (''&gt;Q5 (aligned)'', PInt 120)])] =
     Inl (AssertionError ''Error on S1 &lt;Q5 &gt;Q5 (aligned) . Negative number of reads'')"
proof -
  let ?d = "[(''Number of reads (aligned)'', PFloat (FNum 100)), (''&gt;Q5 (aligned)'', PInt 120)]"
  have h1: "get_total_reads ?d = (Some (PFloat (FNum 100)), Some ''aligned'')"
    by (simp add: plot_defs)
  have h2: "num_of (PFloat (FNum 100)) = Some 100" by simp
  have h3: "map_of ?d (key_fmt ''&gt;Q5'' ''aligned'') = Some (PInt 120)"
    by (simp add: key_fmt_def)
  have h4: "num_of (PInt 120) = Some 120" by simp
  have p: "nanostat_alignment_plot [(''S1'', ?d)] =
     Inl (AssertionError ''Error on S1 &lt;Q5 &gt;Q5 (aligned) . Negative number of reads'')"
    by (simp add: plot_defs round64_whole)
  from histogram_negative_bucket_fails[OF h1 h2 h3 h4, of "''S1''" "[(''S1'', ?d)]"] p
  show ?thesis by (simp add: key_fmt_def)
qed

subsection \<open>A sample without a total\<close>

text \<open>
  Claim C4 says that a sample without a \<^verbatim>\<open>Number of reads\<close> field is left out of the
  histogram while the other samples get their rows. The code does not do that:
  \<^verbatim>\<open>_get_total_reads\<close> returns \<^verbatim>\<open>None, None\<close>, the caller formats the key
  \<^verbatim>\<open>&gt;Q5 (None)\<close> and the lookup raises KeyError, for the whole plot. The stream
  \<^verbatim>\<open>Active channels: 512\<close> is parsed into such a sample.
\<close>

theorem missing_total_reads_raises:
  "parse_nanostat_log initial_state
     \<lparr>f_lines = [''Active channels: 512''], fn = ''S1.txt'', s_name = ''S1''\<rparr> =
   Inr \<lparr>nanostat_data = [(''S1'', [(''Active channels (seq summary)'', PFloat (FNum 512))])],
        debug_log = [],
        data_sources = [\<lparr>f_lines = [''Active channels: 512''], fn = ''S1.txt'', s_name = ''S1''\<rparr>]\<rparr>
   \<and> get_total_reads [(''Active channels (seq summary)'', PFloat (FNum 512))] = (None, None)
   \<and> sample_bars ''S1'' [(''Active channels (seq summary)'', PFloat (FNum 512))] =
       Inl (KeyError ''&gt;Q5 (None)'')
   \<and> nanostat_alignment_plot
        [(''S1'', [(''Active channels (seq summary)'', PFloat (FNum 512))]),
         (''S2'', [(''Number of reads (aligned)'', PFloat (FNum 10)), (''&gt;Q5 (aligned)'', PInt 9),
                   (''&gt;Q7 (aligned)'', PInt 7), (''&gt;Q10 (aligned)'', PInt 4),
                   (''&gt;Q12 (aligned)'', PInt 2), (''&gt;Q15 (aligned)'', PInt 1)])] =
       Inl (KeyError ''&gt;Q5 (None)'')"
proof -
  have 1: "parse_lines [] [''Active channels: 512''] = Inr [(''Active channels'', PFloat (FNum 512))]"
    by (simp add: eval_defs round64_whole)
  have 2: "parse_nanostat_log initial_state
     \<lparr>f_lines = [''Active channels: 512''], fn = ''S1.txt'', s_name = ''S1''\<rparr> =
   Inr \<lparr>nanostat_data = [(''S1'', [(''Active channels (seq summary)'', PFloat (FNum 512))])],
        debug_log = [],
        data_sources = [\<lparr>f_lines = [''Active channels: 512''], fn = ''S1.txt'', s_name = ''S1''\<rparr>]\<rparr>"
    using 1 by (simp add: load_defs)
  show ?thesis
    unfolding 2 by (simp add: plot_defs)
qed

subsection \<open>The end-to-end example\<close>

text \<open>
  Claim C5, as amended. The parser escapes every line itself, so the threshold lines of
  a report carry a raw \<^verbatim>\<open>>\<close>. The lines \<^verbatim>\<open>Number of reads: 1,000\<close>, \<^verbatim>\<open>>Q5: 900\<close>,
  \<^verbatim>\<open>>Q7: 700\<close>, \<^verbatim>\<open>>Q10: 400\<close>, \<^verbatim>\<open>>Q12: 200\<close>, \<^verbatim>\<open>>Q15: 50\<close>, \<^verbatim>\<open>Active channels: 512\<close> of
  sample S1 are stored under the variant \<^verbatim>\<open>seq summary\<close>, and the histogram of S1 is
  100, 200, 300, 200, 150, 50, which add up to 1000.
\<close>

theorem example_lines_histogram:
  "parse_nanostat_log initial_state
     \<lparr>f_lines = [''Number of reads: 1,000'', ''>Q5: 900'', ''>Q7: 700'', ''>Q10: 400'',
                 ''>Q12: 200'', ''>Q15: 50'', ''Active channels: 512''],
      fn = ''S1.txt'', s_name = ''S1''\<rparr> =
   Inr \<lparr>nanostat_data =
          [(''S1'', [(''Number of reads (seq summary)'', PFloat (FNum 1000)),
                    (''&gt;Q5 (seq summary)'', PInt 900), (''&gt;Q7 (seq summary)'', PInt 700),
                    (''&gt;Q10 (seq summary)'', PInt 400), (''&gt;Q12 (seq summary)'', PInt 200),
                    (''&gt;Q15 (seq summary)'', PInt 50),
                    (''Active channels (seq summary)'', PFloat (FNum 512))])],
        debug_log = [],
        data_sources =
          [\<lparr>f_lines = [''Number of reads: 1,000'', ''>Q5: 900'', ''>Q7: 700'', ''>Q10: 400'',
                       ''>Q12: 200'', ''>Q15: 50'', ''Active channels: 512''],
            fn = ''S1.txt'', s_name = ''S1''\<rparr>]\<rparr>
   \<and> nanostat_alignment_plot
        [(''S1'', [(''Number of reads (seq summary)'', PFloat (FNum 1000)),
                  (''&gt;Q5 (seq summary)'', PInt 900), (''&gt;Q7 (seq summary)'', PInt 700),
                  (''&gt;Q10 (seq summary)'', PInt 400), (''&gt;Q12 (seq summary)'', PInt 200),
                  (''&gt;Q15 (seq summary)'', PInt 50),
                  (''Active channels (seq summary)'', PFloat (FNum 512))])] =
     Inr \<lparr>p_data =
            [(''S1'', [(''&lt;Q5'', PFloat (FNum 100)), (''Q5-7'', PInt 200), (''Q7-10'', PInt 300),
                      (''Q10-12'', PInt 200), (''Q12-15'', PInt 150), (''&gt;Q15'', PInt 50)])],
          p_keys =
            [(''&lt;Q5'', ''Reads &lt;Q5''), (''Q5-7'', ''Reads Q5-7''), (''Q7-10'', ''Reads Q7-10''),
             (''Q10-12'', ''Reads Q10-12''), (''Q12-15'', ''Reads Q12-15''),
             (''&gt;Q15'', ''Reads &gt;Q15'')],
          p_title = ''NanoStat: Reads by quality (seq summary)''\<rparr>
   \<and> bucket_sum
        [(''&lt;Q5'', PFloat (FNum 100)), (''Q5-7'', PInt 200), (''Q7-10'', PInt 300),
         (''Q10-12'', PInt 200), (''Q12-15'', PInt 150), (''&gt;Q15'', PInt 50)] = Some 1000"
proof -
  have 1: "parse_lines []
             [''Number of reads: 1,000'', ''>Q5: 900'', ''>Q7: 700'', ''>Q10: 400'',
              ''>Q12: 200'', ''>Q15: 50'', ''Active channels: 512''] =
           Inr [(''Number of reads'', PFloat (FNum 1000)), (''&gt;Q5'', PInt 900),
                (''&gt;Q7'', PInt 700), (''&gt;Q10'', PInt 400), (''&gt;Q12'', PInt 200),
                (''&gt;Q15'', PInt 50), (''Active channels'', PFloat (FNum 512))]"
    by (simp add: eval_defs round64_whole)
  have 2: "parse_nanostat_log initial_state
     \<lparr>f_lines = [''Number of reads: 1,000'', ''>Q5: 900'', ''>Q7: 700'', ''>Q10: 400'',
                 ''>Q12: 200'', ''>Q15: 50'', ''Active channels: 512''],
      fn = ''S1.txt'', s_name = ''S1''\<rparr> =
   Inr \<lparr>nanostat_data =
          [(''S1'', [(''Number of reads (seq summary)'', PFloat (FNum 1000)),
                    (''&gt;Q5 (seq summary)'', PInt 900), (''&gt;Q7 (seq summary)'', PInt 700),
                    (''&gt;Q10 (seq summary)'', PInt 400), (''&gt;Q12 (seq summary)'', PInt 200),
                    (''&gt;Q15 (seq summary)'', PInt 50),
                    (''Active channels (seq summary)'', PFloat (FNum 512))])],
        debug_log = [],
        data_sources =
          [\<lparr>f_lines = [''Number of reads: 1,000'', ''>Q5: 900'', ''>Q7: 700'', ''>Q10: 400'',
                       ''>Q12: 200'', ''>Q15: 50'', ''Active channels: 512''],
            fn = ''S1.txt'', s_name = ''S1''\<rparr>]\<rparr>"
    using 1 by (simp add: load_defs)
  show ?thesis
    unfolding 2 by (simp add: plot_defs round64_whole bucket_sum_def)
qed

text \<open>
  With the lines as claim C5 writes them, \<^verbatim>\<open>&gt;Q5: 900\<close> and so on, the escaped key is
  \<^verbatim>\<open>&amp;gt;Q5\<close>, which is in no vocabulary: the stream is still of the variant
  \<^verbatim>\<open>seq summary\<close>, but no threshold count is stored and the histogram derivation raises
  KeyError.
\<close>

theorem escaped_example_lines_counterexample:
  "parse_nanostat_log initial_state
     \<lparr>f_lines = [''Number of reads: 1,000'', ''&gt;Q5: 900'', ''&gt;Q7: 700'', ''&gt;Q10: 400'',
                 ''&gt;Q12: 200'', ''&gt;Q15: 50'', ''Active channels: 512''],
      fn = ''S1.txt'', s_name = ''S1''\<rparr> =
   Inr \<lparr>nanostat_data =
          [(''S1'', [(''Number of reads (seq summary)'', PFloat (FNum 1000)),
                    (''Active channels (seq summary)'', PFloat (FNum 512))])],
        debug_log = [],
        data_sources =
          [\<lparr>f_lines = [''Number of reads: 1,000'', ''&gt;Q5: 900'', ''&gt;Q7: 700'', ''&gt;Q10: 400'',
                       ''&gt;Q12: 200'', ''&gt;Q15: 50'', ''Active channels: 512''],
            fn = ''S1.txt'', s_name = ''S1''\<rparr>]\<rparr>
   \<and> nanostat_alignment_plot
        [(''S1'', [(''Number of reads (seq summary)'', PFloat (FNum 1000)),
                  (''Active channels (seq summary)'', PFloat (FNum 512))])] =
     Inl (KeyError ''&gt;Q5 (seq summary)'')"
proof -
  have 1: "parse_lines []
             [''Number of reads: 1,000'', ''&gt;Q5: 900'', ''&gt;Q7: 700'', ''&gt;Q10: 400'',
              ''&gt;Q12: 200'', ''&gt;Q15: 50'', ''Active channels: 512''] =
           Inr [(''Number of reads'', PFloat (FNum 1000)),
                (''Active channels'', PFloat (FNum 512))]"
    by (simp add: eval_defs round64_whole)
  have 2: "parse_nanostat_log initial_state
     \<lparr>f_lines = [''Number of reads: 1,000'', ''&gt;Q5: 900'', ''&gt;Q7: 700'', ''&gt;Q10: 400'',
                 ''&gt;Q12: 200'', ''&gt;Q15: 50'', ''Active channels: 512''],
      fn = ''S1.txt'', s_name = ''S1''\<rparr> =
   Inr \<lparr>nanostat_data =
          [(''S1'', [(''Number of reads (seq summary)'', PFloat (FNum 1000)),
                    (''Active channels (seq summary)'', PFloat (FNum 512))])],
        debug_log = [],
        data_sources =
          [\<lparr>f_lines = [''Number of reads: 1,000'', ''&gt;Q5: 900'', ''&gt;Q7: 700'', ''&gt;Q10: 400'',
                       ''&gt;Q12: 200'', ''&gt;Q15: 50'', ''Active channels: 512''],
            fn = ''S1.txt'', s_name = ''S1''\<rparr>]\<rparr>"
    using 1 by (simp add: load_defs)
  show ?thesis
    unfolding 2 by (simp add: plot_defs)
qed

subsection \<open>A recognised field name without a colon\<close>

text \<open>
  Claim C9. Parsing is not total over text lines: the line \<^verbatim>\<open>Number of reads\<close>, a
  recognised field name with no colon, makes \<^verbatim>\<open>parts[1]\<close> raise IndexError (the state is
  left as it was), and so does the line \<^verbatim>\<open>>Q5\<close>; a line whose key is in no vocabulary is
  ignored.
\<close>

theorem parse_line_without_colon_raises:
  "parse_nanostat_log st \<lparr>f_lines = [''Number of reads''], fn = name, s_name = sn\<rparr> =
     Inl (IndexError, st)
   \<and> parse_line ns ''Number of reads'' = Inl IndexError
   \<and> parse_line ns ''>Q5'' = Inl IndexError
   \<and> parse_line ns ''General summary'' = Inr ns"
proof -
  have a: "parse_line ns' ''Number of reads'' = Inl IndexError" for ns'
    by (simp add: parse_line_def escape_def escape_char_def strip_def is_space_def KEYS_NUM_def)
  have b: "parse_line ns ''>Q5'' = Inl IndexError"
    by (simp add: parse_line_def escape_def escape_char_def strip_def is_space_def
        KEYS_NUM_def KEYS_READ_Q_def)
  have c: "parse_line ns ''General summary'' = Inr ns"
    by (simp add: parse_line_def escape_def escape_char_def strip_def is_space_def
        KEYS_NUM_def KEYS_READ_Q_def)
  have "parse_nanostat_log st \<lparr>f_lines = [''Number of reads''], fn = name, s_name = sn\<rparr> =
        Inl (IndexError, st)"
    by (simp add: parse_nanostat_log_def a)
  with a b c show ?thesis by simp
qed

subsection \<open>The visibility of the columns\<close>

text \<open>
  Claim C2, as amended. The template of \<^verbatim>\<open>Mean read quality\<close> is hidden by default
  (source line 154) and source line 230 keeps a hidden template hidden. So in every
  store a sample of which has the \<^verbatim>\<open>aligned\<close> value of \<^verbatim>\<open>Mean read quality\<close>, the column of
  that variant is hidden, and in every store a sample of which has the \<^verbatim>\<open>seq summary\<close>
  value, the column of that variant is hidden: both columns are hidden for a sample
  with both values, and the \<^verbatim>\<open>seq summary\<close> column is hidden for a sample with that
  value alone.
\<close>

theorem column_visibility:
  assumes "(sn, d) \<in> set data"
  shows "(map_of d ''Mean read quality (aligned)'' \<noteq> None \<longrightarrow>
            map_option h_hidden
              (map_of (nanostat_general_stats_table cfg data) ''Mean read quality (aligned)'') =
            Some (Some True))
       \<and> (map_of d ''Mean read quality (seq summary)'' \<noteq> None \<longrightarrow>
            map_option h_hidden
              (map_of (nanostat_general_stats_table cfg data)
                 ''Mean read quality (seq summary)'') =
            Some (Some True))"
  using key_in_header_keys[OF assms] mean_quality_aligned_hidden mean_quality_seq_summary_hidden
  by blast

theorem column_visibility_witness:
  "map_option h_hidden
     (map_of
        (nanostat_general_stats_table
           \<lparr>base_count_prefix = ''Mb'', base_count_desc = ''millions'',
            base_count_multiplier = 1 / 1000000, long_read_count_prefix = ''K'',
            long_read_count_desc = ''thousands'', long_read_count_multiplier = 1 / 1000\<rparr>
           [(''S1'', [(''Mean read quality (aligned)'', PFloat (FNum 12)),
                     (''Mean read quality (seq summary)'', PFloat (FNum 11))])])
        ''Mean read quality (aligned)'') = Some (Some True)
   \<and> map_option h_hidden
     (map_of
        (nanostat_general_stats_table
           \<lparr>base_count_prefix = ''Mb'', base_count_desc = ''millions'',
            base_count_multiplier = 1 / 1000000, long_read_count_prefix = ''K'',
            long_read_count_desc = ''thousands'', long_read_count_multiplier = 1 / 1000\<rparr>
           [(''S1'', [(''Mean read quality (aligned)'', PFloat (FNum 12)),
                     (''Mean read quality (seq summary)'', PFloat (FNum 11))])])
        ''Mean read quality (seq summary)'') = Some (Some True)
   \<and> map_option h_hidden
     (map_of
        (nanostat_general_stats_table
           \<lparr>base_count_prefix = ''Mb'', base_count_desc = ''millions'',
            base_count_multiplier = 1 / 1000000, long_read_count_prefix = ''K'',
            long_read_count_desc = ''thousands'', long_read_count_multiplier = 1 / 1000\<rparr>
           [(''S1'', [(''Mean read quality (seq summary)'', PFloat (FNum 11))])])
        ''Mean read quality (seq summary)'') = Some (Some True)"
proof -
  let ?cfg = "\<lparr>base_count_prefix = ''Mb'', base_count_desc = ''millions'',
            base_count_multiplier = 1 / 1000000, long_read_count_prefix = ''K'',
            long_read_count_desc = ''thousands'', long_read_count_multiplier = 1 / 1000\<rparr>"
  let ?both = "[(''Mean read quality (aligned)'', PFloat (FNum 12)),
                (''Mean read quality (seq summary)'', PFloat (FNum 11))]"
  let ?only = "[(''Mean read quality (seq summary)'', PFloat (FNum 11))]"
  have m1: "(''S1'', ?both) \<in> set [(''S1'', ?both)]" by simp
  have m2: "(''S1'', ?only) \<in> set [(''S1'', ?only)]" by simp
  have k1: "map_of ?both ''Mean read quality (aligned)'' \<noteq> None" by simp
  have k2: "map_of ?both ''Mean read quality (seq summary)'' \<noteq> None" by simp
  have k3: "map_of ?only ''Mean read quality (seq summary)'' \<noteq> None" by simp
  from column_visibility[OF m1, of ?cfg] k1 k2 column_visibility[OF m2, of ?cfg] k3
  show ?thesis by blast
qed

text \<open>
  Claim C2 as it is written fails on the code: the \<^verbatim>\<open>aligned\<close> column of
  \<^verbatim>\<open>Mean read quality\<close> is hidden, and so is the \<^verbatim>\<open>seq summary\<close> column stored alone.
\<close>

theorem mean_quality_columns_counterexample:
  "map_option h_hidden
     (map_of
        (nanostat_general_stats_table
           \<lparr>base_count_prefix = ''Mb'', base_count_desc = ''millions'',
            base_count_multiplier = 1 / 1000000, long_read_count_prefix = ''K'',
            long_read_count_desc = ''thousands'', long_read_count_multiplier = 1 / 1000\<rparr>
           [(''S1'', [(''Mean read quality (aligned)'', PFloat (FNum 12)),
                     (''Mean read quality (seq summary)'', PFloat (FNum 11))])])
        ''Mean read quality (aligned)'') = Some (Some True)
   \<and> map_option h_hidden
     (map_of
        (nanostat_general_stats_table
           \<lparr>base_count_prefix = ''Mb'', base_count_desc = ''millions'',
            base_count_multiplier = 1 / 1000000, long_read_count_prefix = ''K'',
            long_read_count_desc = ''thousands'', long_read_count_multiplier = 1 / 1000\<rparr>
           [(''S1'', [(''Mean read quality (seq summary)'', PFloat (FNum 11))])])
        ''Mean read quality (seq summary)'') = Some (Some True)"
  by code_simp

subsection \<open>The variant of a stream\<close>

text \<open>
  Claim C7. Let the lines of a stream parse into the fields \<open>ns\<close>. If \<open>ns\<close> has
  \<^verbatim>\<open>Total bases aligned\<close>, the variant is \<^verbatim>\<open>aligned\<close> and every field is stored for the
  sample under its \<^verbatim>\<open>aligned\<close> key. Otherwise, if \<open>ns\<close> has \<^verbatim>\<open>Active channels\<close>, the
  variant is \<^verbatim>\<open>seq summary\<close> and every field is stored under its \<^verbatim>\<open>seq summary\<close> key.
  Otherwise the parser returns the state it was given, store included, with one more
  log event, which names the file.
\<close>

theorem variant_classification:
  assumes "parse_lines [] (f_lines f) = Inr ns"
  shows "(map_of ns ''Total bases aligned'' \<noteq> None \<longrightarrow>
            stat_type_of ns = Some ''aligned'' \<and>
            (\<exists>st'. parse_nanostat_log st f = Inr st' \<and> stored_under st' (s_name f) ''aligned'' ns))
       \<and> (map_of ns ''Total bases aligned'' = None \<and> map_of ns ''Active channels'' \<noteq> None \<longrightarrow>
            stat_type_of ns = Some ''seq summary'' \<and>
            (\<exists>st'. parse_nanostat_log st f = Inr st' \<and>
                   stored_under st' (s_name f) ''seq summary'' ns))
       \<and> (map_of ns ''Total bases aligned'' = None \<and> map_of ns ''Active channels'' = None \<longrightarrow>
            stat_type_of ns = None \<and>
            parse_nanostat_log st f =
              Inr (st\<lparr>debug_log := debug_log st @ [NotRecognised (fn f)]\<rparr>))"
proof -
  note d = parse_lines_distinct[OF assms]
  have "stored_under (merge_record st f (out_dict ns t)) (s_name f) t ns" for t
    by (rule stored_under_merge[OF d])
  then show ?thesis
    using assms by (auto simp: parse_nanostat_log_def stat_type_of_def)
qed

theorem variant_classification_witness:
  "(\<exists>st'. parse_nanostat_log initial_state
            \<lparr>f_lines = [''Total bases aligned: 5,000'', ''Active channels: 12''],
             fn = ''a.txt'', s_name = ''A''\<rparr> = Inr st'
          \<and> stored_under st' ''A'' ''aligned''
               [(''Total bases aligned'', PFloat (FNum 5000)), (''Active channels'', PFloat (FNum 12))])
   \<and> (\<exists>st'. parse_nanostat_log initial_state
            \<lparr>f_lines = [''Active channels: 512''], fn = ''b.txt'', s_name = ''B''\<rparr> = Inr st'
          \<and> stored_under st' ''B'' ''seq summary'' [(''Active channels'', PFloat (FNum 512))])
   \<and> parse_nanostat_log initial_state
        \<lparr>f_lines = [''General summary:''], fn = ''c.txt'', s_name = ''C''\<rparr> =
      Inr (initial_state\<lparr>debug_log := debug_log initial_state @ [NotRecognised ''c.txt'']\<rparr>)"
proof -
  let ?fa = "\<lparr>f_lines = [''Total bases aligned: 5,000'', ''Active channels: 12''],
             fn = ''a.txt'', s_name = ''A''\<rparr>"
  let ?fb = "\<lparr>f_lines = [''Active channels: 512''], fn = ''b.txt'', s_name = ''B''\<rparr>"
  let ?fc = "\<lparr>f_lines = [''General summary:''], fn = ''c.txt'', s_name = ''C''\<rparr>"
  have a: "parse_lines [] (f_lines ?fa) =
           Inr [(''Total bases aligned'', PFloat (FNum 5000)), (''Active channels'', PFloat (FNum 12))]"
    by (simp add: eval_defs round64_whole)
  have b: "parse_lines [] (f_lines ?fb) = Inr [(''Active channels'', PFloat (FNum 512))]"
    by (simp add: eval_defs round64_whole)
  have c: "parse_lines [] (f_lines ?fc) = Inr []"
    by (simp add: eval_defs round64_whole)
  from variant_classification[OF a, of initial_state]
  have 1: "\<exists>st'. parse_nanostat_log initial_state ?fa = Inr st'
          \<and> stored_under st' ''A'' ''aligned''
               [(''Total bases aligned'', PFloat (FNum 5000)), (''Active channels'', PFloat (FNum 12))]"
    by simp
  from variant_classification[OF b, of initial_state]
  have 2: "\<exists>st'. parse_nanostat_log initial_state ?fb = Inr st'
          \<and> stored_under st' ''B'' ''seq summary'' [(''Active channels'', PFloat (FNum 512))]"
    by simp
  from variant_classification[OF c, of initial_state]
  have 3: "parse_nanostat_log initial_state ?fc =
      Inr (initial_state\<lparr>debug_log := debug_log initial_state @ [NotRecognised ''c.txt'']\<rparr>)"
    by simp
  from 1 2 3 show ?thesis by blast
qed

subsection \<open>Merging into a sample that is already stored\<close>

text \<open>
  Claim C8. Let a stream of variant \<open>t\<close> parse into \<open>ns\<close>, let its sample already have
  the entry \<open>d\<close>, and let \<open>d\<close> share a key with the composite record. Then the parser
  logs exactly one event, \<open>DuplicateSample\<close> of the sample; in the new entry every
  incoming key has the incoming value, every other key has the value it had in \<open>d\<close>,
  the keys are those of \<open>d\<close> and of the record together; the other samples are
  unchanged.
\<close>

theorem merge_conflict:
  assumes "parse_lines [] (f_lines f) = Inr ns"
    and "stat_type_of ns = Some t"
    and "map_of (nanostat_data st) (s_name f) = Some d"
    and "set (keys d) \<inter> set (keys (out_dict ns t)) \<noteq> {}"
  shows "\<exists>st' d'.
           parse_nanostat_log st f = Inr st'
         \<and> debug_log st' = debug_log st @ [DuplicateSample (s_name f)]
         \<and> map_of (nanostat_data st') (s_name f) = Some d'
         \<and> (\<forall>k \<in> set (keys (out_dict ns t)). map_of d' k = map_of (out_dict ns t) k)
         \<and> (\<forall>(k, v) \<in> set ns. map_of d' (key_fmt k t) = Some v)
         \<and> (\<forall>k. k \<notin> set (keys (out_dict ns t)) \<longrightarrow> map_of d' k = map_of d k)
         \<and> set (keys d') = set (keys d) \<union> set (keys (out_dict ns t))
         \<and> (\<forall>s. s \<noteq> s_name f \<longrightarrow> map_of (nanostat_data st') s = map_of (nanostat_data st) s)"
proof -
  let ?o = "out_dict ns t"
  let ?st = "merge_record st f ?o"
  let ?d = "dict_update d ?o"
  note dn = parse_lines_distinct[OF assms(1)]
  have 1: "parse_nanostat_log st f = Inr ?st"
    using assms(1,2) by (simp add: parse_nanostat_log_def)
  have 2: "debug_log ?st = debug_log st @ [DuplicateSample (s_name f)]"
    using assms(3,4) by (simp add: merge_record_log)
  have 3: "map_of (nanostat_data ?st) (s_name f) = Some ?d"
    using assms(3) by (simp add: merge_record_data)
  have lk: "map_of ?d k = (case map_of ?o k of Some v \<Rightarrow> Some v | None \<Rightarrow> map_of d k)" for k
    by (simp add: map_of_dict_update map_of_rev_distinct distinct_out_dict)
  have 4: "\<forall>k \<in> set (keys ?o). map_of ?d k = map_of ?o k"
  proof
    fix k assume "k \<in> set (keys ?o)"
    then have "map_of ?o k \<noteq> None" by (simp add: keys_def map_of_eq_None_iff)
    then show "map_of ?d k = map_of ?o k" by (auto simp: lk)
  qed
  have 5: "\<forall>(k, v) \<in> set ns. map_of ?d (key_fmt k t) = Some v"
    using merged_values[OF dn] by auto
  have 6: "\<forall>k. k \<notin> set (keys ?o) \<longrightarrow> map_of ?d k = map_of d k"
  proof (intro allI impI)
    fix k assume "k \<notin> set (keys ?o)"
    then have "map_of ?o k = None" by (simp add: keys_def map_of_eq_None_iff)
    then show "map_of ?d k = map_of d k" by (simp add: lk)
  qed
  have 7: "set (keys ?d) = set (keys d) \<union> set (keys ?o)" by (rule keys_dict_update)
  have 8: "\<forall>s. s \<noteq> s_name f \<longrightarrow> map_of (nanostat_data ?st) s = map_of (nanostat_data st) s"
    by (simp add: merge_record_data)
  from 1 2 3 4 5 6 7 8 show ?thesis by blast
qed

theorem merge_conflict_witness:
  "\<exists>st' d'.
     parse_nanostat_log
       \<lparr>nanostat_data = [(''S1'', [(''Number of reads (seq summary)'', PFloat (FNum 5)),
                                   (''Number of reads (aligned)'', PFloat (FNum 7))])],
        debug_log = [], data_sources = []\<rparr>
       \<lparr>f_lines = [''Number of reads: 9'', ''Active channels: 512''],
        fn = ''b.txt'', s_name = ''S1''\<rparr> = Inr st'
   \<and> debug_log st' = [DuplicateSample ''S1'']
   \<and> map_of (nanostat_data st') ''S1'' = Some d'
   \<and> map_of d' ''Number of reads (seq summary)'' = Some (PFloat (FNum 9))
   \<and> map_of d' ''Active channels (seq summary)'' = Some (PFloat (FNum 512))
   \<and> map_of d' ''Number of reads (aligned)'' = Some (PFloat (FNum 7))"
proof -
  let ?st = "\<lparr>nanostat_data = [(''S1'', [(''Number of reads (seq summary)'', PFloat (FNum 5)),
                                   (''Number of reads (aligned)'', PFloat (FNum 7))])],
        debug_log = [], data_sources = []\<rparr>"
  let ?f = "\<lparr>f_lines = [''Number of reads: 9'', ''Active channels: 512''],
        fn = ''b.txt'', s_name = ''S1''\<rparr>"
  let ?ns = "[(''Number of reads'', PFloat (FNum 9)), (''Active channels'', PFloat (FNum 512))]"
  let ?d = "[(''Number of reads (seq summary)'', PFloat (FNum 5)),
             (''Number of reads (aligned)'', PFloat (FNum 7))]"
  have o: "out_dict ?ns ''seq summary'' =
           [(''Number of reads (seq summary)'', PFloat (FNum 9)),
            (''Active channels (seq summary)'', PFloat (FNum 512))]"
    by (simp add: out_dict_def key_fmt_def)
  have h1: "parse_lines [] (f_lines ?f) = Inr ?ns" by (simp add: eval_defs round64_whole)
  have h2: "stat_type_of ?ns = Some ''seq summary''" by (simp add: stat_type_of_def)
  have h3: "map_of (nanostat_data ?st) (s_name ?f) = Some ?d" by simp
  have h4: "set (keys ?d) \<inter> set (keys (out_dict ?ns ''seq summary'')) \<noteq> {}"
    by (simp add: o keys_def)
  from merge_conflict[OF h1 h2 h3 h4]
  obtain st' d' where r: "parse_nanostat_log ?st ?f = Inr st'"
    "debug_log st' = debug_log ?st @ [DuplicateSample (s_name ?f)]"
    "map_of (nanostat_data st') (s_name ?f) = Some d'"
    "\<forall>(k, v) \<in> set ?ns. map_of d' (key_fmt k ''seq summary'') = Some v"
    "\<forall>k. k \<notin> set (keys (out_dict ?ns ''seq summary'')) \<longrightarrow> map_of d' k = map_of ?d k"
    by blast
  from r(4) have a: "map_of d' ''Number of reads (seq summary)'' = Some (PFloat (FNum 9))"
    "map_of d' ''Active channels (seq summary)'' = Some (PFloat (FNum 512))"
    by (simp_all add: key_fmt_def)
  have "''Number of reads (aligned)'' \<notin> set (keys (out_dict ?ns ''seq summary''))"
    by (simp add: o keys_def)
  with r(5) have b: "map_of d' ''Number of reads (aligned)'' = Some (PFloat (FNum 7))"
    by simp
  from r(1,2,3) a b show ?thesis by simp
qed

subsection \<open>A malformed value\<close>

text \<open>
  Claim C3, as amended. Let a line of a stream have a key of the numeric vocabulary
  and a value that \<^verbatim>\<open>float\<close> rejects, the lines before it being parsed without error.
  Then the parser raises ValueError and leaves the state, and so the store, as it was:
  the stream contributes nothing. The loading loop, which catches nothing, ends with
  that error whatever streams follow, the store being the one that the streams before
  had made; and the constructor ends with that error.
\<close>

theorem malformed_value_aborts_loading:
  assumes "f_lines f = before @ line # rest"
    and "parse_lines [] before = Inr ns"
    and "split_on CHR '':'' (strip (escape line)) = key # p # ps"
    and "key \<in> set KEYS_NUM"
    and "py_float (remove_commas p) = None"
    and "load_logs initial_state earlier = Inr st"
  shows "parse_nanostat_log st f = Inl (ValueError, st)
       \<and> load_logs initial_state (earlier @ f # later) = Inl (ValueError, st)
       \<and> init cfg ignored (earlier @ f # later) = Inl ValueError"
proof -
  have "parse_lines [] (f_lines f) = Inl ValueError"
    using assms(1,2) parse_line_malformed[OF assms(3,4,5), of ns]
    by (simp add: parse_lines_append)
  then have 1: "parse_nanostat_log st f = Inl (ValueError, st)"
    by (simp add: parse_nanostat_log_def)
  then have 2: "load_logs initial_state (earlier @ f # later) = Inl (ValueError, st)"
    using assms(6) by (simp add: load_logs_append)
  then have "init cfg ignored (earlier @ f # later) = Inl ValueError"
    by (simp add: init_def)
  with 1 2 show ?thesis by simp
qed

theorem malformed_value_aborts_loading_witness:
  "parse_nanostat_log
     \<lparr>nanostat_data = [(''S0'', [(''Active channels (seq summary)'', PFloat (FNum 12))])],
      debug_log = [],
      data_sources = [\<lparr>f_lines = [''Active channels: 12''], fn = ''first.txt'', s_name = ''S0''\<rparr>]\<rparr>
     \<lparr>f_lines = [''Active channels: 512'', ''Number of reads: n/a''],
      fn = ''bad.txt'', s_name = ''S1''\<rparr> =
   Inl (ValueError,
        \<lparr>nanostat_data = [(''S0'', [(''Active channels (seq summary)'', PFloat (FNum 12))])],
         debug_log = [],
         data_sources = [\<lparr>f_lines = [''Active channels: 12''], fn = ''first.txt'', s_name = ''S0''\<rparr>]\<rparr>)
   \<and> load_logs initial_state
       [\<lparr>f_lines = [''Active channels: 12''], fn = ''first.txt'', s_name = ''S0''\<rparr>,
        \<lparr>f_lines = [''Active channels: 512'', ''Number of reads: n/a''],
         fn = ''bad.txt'', s_name = ''S1''\<rparr>,
        \<lparr>f_lines = [''Active channels: 512'', ''Number of reads: 10''],
         fn = ''good.txt'', s_name = ''S2''\<rparr>] =
     Inl (ValueError,
          \<lparr>nanostat_data = [(''S0'', [(''Active channels (seq summary)'', PFloat (FNum 12))])],
           debug_log = [],
           data_sources =
             [\<lparr>f_lines = [''Active channels: 12''], fn = ''first.txt'', s_name = ''S0''\<rparr>]\<rparr>)"
proof -
  let ?first = "\<lparr>f_lines = [''Active channels: 12''], fn = ''first.txt'', s_name = ''S0''\<rparr>"
  let ?bad = "\<lparr>f_lines = [''Active channels: 512'', ''Number of reads: n/a''],
      fn = ''bad.txt'', s_name = ''S1''\<rparr>"
  let ?good = "\<lparr>f_lines = [''Active channels: 512'', ''Number of reads: 10''],
         fn = ''good.txt'', s_name = ''S2''\<rparr>"
  let ?st = "\<lparr>nanostat_data = [(''S0'', [(''Active channels (seq summary)'', PFloat (FNum 12))])],
      debug_log = [], data_sources = [?first]\<rparr>"
  have h1: "f_lines ?bad = [''Active channels: 512''] @ ''Number of reads: n/a'' # []" by simp
  have h2: "parse_lines [] [''Active channels: 512''] =
            Inr [(''Active channels'', PFloat (FNum 512))]"
    by (simp add: eval_defs round64_whole)
  have h3: "split_on CHR '':'' (strip (escape ''Number of reads: n/a'')) =
            ''Number of reads'' # '' n/a'' # []"
    by (simp add: eval_defs)
  have h4: "''Number of reads'' \<in> set KEYS_NUM" by (simp add: eval_defs)
  have h5: "py_float (remove_commas '' n/a'') = None" by (simp add: eval_defs)
  have p: "parse_lines [] [''Active channels: 12''] = Inr [(''Active channels'', PFloat (FNum 12))]"
    by (simp add: eval_defs round64_whole)
  have h6: "load_logs initial_state [?first] = Inr ?st"
    using p by (simp add: load_defs)
  from malformed_value_aborts_loading[OF h1 h2 h3 h4 h5 h6, of "[?good]"]
  show ?thesis by simp
qed

text \<open>
  Claim C3 as it is written says that the other streams are still processed. They are
  not: after the malformed stream the loop returns the error, and the stream
  \<^verbatim>\<open>good.txt\<close>, which loads when it is alone, is never parsed.
\<close>

theorem malformed_value_counterexample:
  "load_logs initial_state
     [\<lparr>f_lines = [''Active channels: 512'', ''Number of reads: n/a''],
       fn = ''bad.txt'', s_name = ''S1''\<rparr>,
      \<lparr>f_lines = [''Active channels: 512'', ''Number of reads: 10''],
       fn = ''good.txt'', s_name = ''S2''\<rparr>] = Inl (ValueError, initial_state)
   \<and> load_logs initial_state
     [\<lparr>f_lines = [''Active channels: 512'', ''Number of reads: 10''],
       fn = ''good.txt'', s_name = ''S2''\<rparr>] =
     Inr \<lparr>nanostat_data =
            [(''S2'', [(''Active channels (seq summary)'', PFloat (FNum 512)),
                      (''Number of reads (seq summary)'', PFloat (FNum 10))])],
          debug_log = [],
          data_sources =
            [\<lparr>f_lines = [''Active channels: 512'', ''Number of reads: 10''],
              fn = ''good.txt'', s_name = ''S2''\<rparr>]\<rparr>
   \<and> init \<lparr>base_count_prefix = ''Mb'', base_count_desc = ''millions'',
            base_count_multiplier = 1 / 1000000, long_read_count_prefix = ''K'',
            long_read_count_desc = ''thousands'', long_read_count_multiplier = 1 / 1000\<rparr>
          []
          [\<lparr>f_lines = [''Active channels: 512'', ''Number of reads: n/a''],
            fn = ''bad.txt'', s_name = ''S1''\<rparr>,
           \<lparr>f_lines = [''Active channels: 512'', ''Number of reads: 10''],
            fn = ''good.txt'', s_name = ''S2''\<rparr>] = Inl ValueError"
proof -
  have b: "parse_lines [] [''Active channels: 512'', ''Number of reads: n/a''] = Inl ValueError"
    by (simp add: eval_defs round64_whole)
  have g: "parse_lines [] [''Active channels: 512'', ''Number of reads: 10''] =
           Inr [(''Active channels'', PFloat (FNum 512)), (''Number of reads'', PFloat (FNum 10))]"
    by (simp add: eval_defs round64_whole)
  have 1: "load_logs initial_state
     [\<lparr>f_lines = [''Active channels: 512'', ''Number of reads: n/a''],
       fn = ''bad.txt'', s_name = ''S1''\<rparr>,
      \<lparr>f_lines = [''Active channels: 512'', ''Number of reads: 10''],
       fn = ''good.txt'', s_name = ''S2''\<rparr>] = Inl (ValueError, initial_state)"
    using b by (simp add: parse_nanostat_log_def)
  have 2: "load_logs initial_state
     [\<lparr>f_lines = [''Active channels: 512'', ''Number of reads: 10''],
       fn = ''good.txt'', s_name = ''S2''\<rparr>] =
     Inr \<lparr>nanostat_data =
            [(''S2'', [(''Active channels (seq summary)'', PFloat (FNum 512)),
                      (''Number of reads (seq summary)'', PFloat (FNum 10))])],
          debug_log = [],
          data_sources =
            [\<lparr>f_lines = [''Active channels: 512'', ''Number of reads: 10''],
              fn = ''good.txt'', s_name = ''S2''\<rparr>]\<rparr>"
    using g by (simp add: load_defs)
  have 3: "init \<lparr>base_count_prefix = ''Mb'', base_count_desc = ''millions'',
            base_count_multiplier = 1 / 1000000, long_read_count_prefix = ''K'',
            long_read_count_desc = ''thousands'', long_read_count_multiplier = 1 / 1000\<rparr>
          []
          [\<lparr>f_lines = [''Active channels: 512'', ''Number of reads: n/a''],
            fn = ''bad.txt'', s_name = ''S1''\<rparr>,
           \<lparr>f_lines = [''Active channels: 512'', ''Number of reads: 10''],
            fn = ''good.txt'', s_name = ''S2''\<rparr>] = Inl ValueError"
    unfolding init_def 1 by simp
  show ?thesis
    by (rule conjI[OF 1 conjI[OF 2 3]])
qed

subsection \<open>The keys that reach the store\<close>

text \<open>
  Claim C10. After the loading loop has run over any list of streams, every key of
  every sample is \<^verbatim>\<open>name (variant)\<close> with the name of one of the two vocabularies and
  the variant \<^verbatim>\<open>aligned\<close> or \<^verbatim>\<open>seq summary\<close>, and this stays so when ignored samples are
  removed. No sample has a key of the variant \<^verbatim>\<open>unrecognized\<close>, so
  \<^verbatim>\<open>_get_total_reads\<close> never answers with that variant and the column derivation
  builds no column for it.
\<close>

theorem stored_keys_are_composite:
  assumes "load_logs initial_state files = Inr st"
  shows "store_keys_composite (nanostat_data st)
       \<and> store_keys_composite (ignore_samples ignored (nanostat_data st))
       \<and> (\<forall>(s, d) \<in> set (nanostat_data st).
            (\<forall>k. map_of d (key_fmt k ''unrecognized'') = None)
            \<and> snd (get_total_reads d) \<noteq> Some ''unrecognized'')
       \<and> (\<forall>k. map_of (nanostat_general_stats_table cfg
                        (ignore_samples ignored (nanostat_data st)))
                 (key_fmt k ''unrecognized'') = None)"
proof -
  have "store_keys_composite (nanostat_data initial_state)"
    by (simp add: store_keys_composite_def initial_state_def)
  from load_logs_keys[OF this assms] have 1: "store_keys_composite (nanostat_data st)" .
  then have 2: "store_keys_composite (ignore_samples ignored (nanostat_data st))"
    by (rule ignore_samples_keys)
  have 3: "\<forall>(s, d) \<in> set (nanostat_data st).
            (\<forall>k. map_of d (key_fmt k ''unrecognized'') = None)
            \<and> snd (get_total_reads d) \<noteq> Some ''unrecognized''"
    using no_unrecognized_key[OF 1] total_reads_not_unrecognized by blast
  have 4: "\<forall>k. map_of (nanostat_general_stats_table cfg
                        (ignore_samples ignored (nanostat_data st)))
                 (key_fmt k ''unrecognized'') = None"
    using table_no_unrecognized[OF 2] by blast
  from 1 2 3 4 show ?thesis by blast
qed

theorem stored_keys_are_composite_witness:
  "store_keys_composite
     [(''S1'', [(''Total bases aligned (aligned)'', PFloat (FNum 5000)),
               (''&gt;Q5 (aligned)'', PInt 900)]),
      (''S2'', [(''Active channels (seq summary)'', PFloat (FNum 512))])]
   \<and> snd (get_total_reads [(''Active channels (seq summary)'', PFloat (FNum 512))]) \<noteq>
       Some ''unrecognized''"
proof -
  let ?f1 = "\<lparr>f_lines = [''Total bases aligned: 5,000'', ''>Q5: 900 (90.0%) 1.2Mb''],
             fn = ''a.txt'', s_name = ''S1''\<rparr>"
  let ?f2 = "\<lparr>f_lines = [''Active channels: 512''], fn = ''b.txt'', s_name = ''S2''\<rparr>"
  let ?data = "[(''S1'', [(''Total bases aligned (aligned)'', PFloat (FNum 5000)),
               (''&gt;Q5 (aligned)'', PInt 900)]),
      (''S2'', [(''Active channels (seq summary)'', PFloat (FNum 512))])]"
  have p1: "parse_lines [] (f_lines ?f1) =
            Inr [(''Total bases aligned'', PFloat (FNum 5000)), (''&gt;Q5'', PInt 900)]"
    by (simp add: eval_defs round64_whole)
  have p2: "parse_lines [] (f_lines ?f2) = Inr [(''Active channels'', PFloat (FNum 512))]"
    by (simp add: eval_defs round64_whole)
  have l: "load_logs initial_state [?f1, ?f2] =
           Inr \<lparr>nanostat_data = ?data, debug_log = [], data_sources = [?f1, ?f2]\<rparr>"
    using p1 p2
    by (simp add: parse_nanostat_log_def stat_type_of_def out_dict_def key_fmt_def
        merge_record_def dict_update_def initial_state_def)
  from stored_keys_are_composite[OF l] show ?thesis by simp
qed

end
